theory Spec2Isabelle
  imports Complex_Main "HOL-Library.Sublist"
begin

section \<open>Python strings\<close>

text \<open>
  A Python \<open>str\<close> is modelled as a \<open>string\<close> whose characters are ASCII code
  points, so \<open>length\<close> is Python's \<open>len\<close>.  Case conversion, the white-space
  class of \<open>str.strip\<close> and of the pattern \<open>\s\<close>, and the word class \<open>\w\<close> are
  the ASCII restrictions of Python's Unicode tables.
\<close>

definition ascii_upper :: string where
  "ascii_upper = ''ABCDEFGHIJKLMNOPQRSTUVWXYZ''"

definition ascii_lower :: string where
  "ascii_lower = ''abcdefghijklmnopqrstuvwxyz''"

definition digits :: string where
  "digits = ''0123456789''"

definition lower_char :: "char \<Rightarrow> char" where
  "lower_char c = (case map_of (zip ascii_upper ascii_lower) c of None \<Rightarrow> c | Some d \<Rightarrow> d)"

definition upper_char :: "char \<Rightarrow> char" where
  "upper_char c = (case map_of (zip ascii_lower ascii_upper) c of None \<Rightarrow> c | Some d \<Rightarrow> d)"

text \<open>\<open>s.lower()\<close> and \<open>s.upper()\<close>.\<close>

definition lower :: "string \<Rightarrow> string" where
  "lower s = map lower_char s"

definition upper :: "string \<Rightarrow> string" where
  "upper s = map upper_char s"

text \<open>The characters for which \<open>str.isspace\<close> holds: tab, line feed, vertical tab,
  form feed, carriage return, the four separators 0x1C to 0x1F, and the blank.\<close>

definition isspace :: "char \<Rightarrow> bool" where
  "isspace c = (c \<in> set [CHR 0x09, CHR 0x0A, CHR 0x0B, CHR 0x0C, CHR 0x0D,
                           CHR 0x1C, CHR 0x1D, CHR 0x1E, CHR 0x1F, CHR '' ''])"

definition isdigit :: "char \<Rightarrow> bool" where
  "isdigit c = (c \<in> set digits)"

text \<open>The class \<open>\w\<close>.\<close>

definition isword :: "char \<Rightarrow> bool" where
  "isword c = (c \<in> set ascii_lower \<or> c \<in> set ascii_upper \<or> c \<in> set digits \<or> c = CHR ''_'')"

text \<open>\<open>s.lstrip()\<close>, \<open>s.rstrip()\<close> and \<open>s.strip()\<close>.\<close>

definition lstrip :: "string \<Rightarrow> string" where
  "lstrip s = dropWhile isspace s"

definition rstrip :: "string \<Rightarrow> string" where
  "rstrip s = rev (dropWhile isspace (rev s))"

definition strip :: "string \<Rightarrow> string" where
  "strip s = rstrip (lstrip s)"

text \<open>\<open>s.endswith(c)\<close> for a one-character string.\<close>

definition endswith_char :: "string \<Rightarrow> char \<Rightarrow> bool" where
  "endswith_char s c = (s \<noteq> [] \<and> last s = c)"

text \<open>\<open>a in b\<close> on strings: \<open>a\<close> occurs in \<open>b\<close> as a contiguous run.\<close>

fun str_in :: "string \<Rightarrow> string \<Rightarrow> bool" where
  "str_in a [] = (a = [])"
| "str_in a (y # ys) = (prefix a (y # ys) \<or> str_in a ys)"

text \<open>\<open>any(t in text for t in terms)\<close>.\<close>

definition any_in :: "string list \<Rightarrow> string \<Rightarrow> bool" where
  "any_in terms text = list_ex (\<lambda>t. str_in t text) terms"

text \<open>\<open>sep.join(xs)\<close>.\<close>

fun join :: "string \<Rightarrow> string list \<Rightarrow> string" where
  "join sep [] = []"
| "join sep [x] = x"
| "join sep (x # y # ys) = x @ sep @ join sep (y # ys)"

text \<open>\<open>s[0].upper() + s[1:]\<close>, guarded by \<open>if s\<close> at each place of the source.\<close>

fun capitalize_first :: "string \<Rightarrow> string" where
  "capitalize_first [] = []"
| "capitalize_first (c # cs) = upper_char c # cs"

section \<open>Keyword insertion engine (optimizer.py)\<close>

text \<open>\<open>re.search(r'\b' + re.escape(kw), text)\<close>: the literal \<open>kw\<close> occurs in
  \<open>text\<close> at a word boundary.  The first argument of \<open>wb_search\<close> is the
  character before the current position (\<open>None\<close> at the start of the text).\<close>

definition boundary :: "char option \<Rightarrow> char option \<Rightarrow> bool" where
  "boundary prev nxt =
     ((case prev of None \<Rightarrow> False | Some c \<Rightarrow> isword c) \<noteq>
      (case nxt of None \<Rightarrow> False | Some c \<Rightarrow> isword c))"

fun wb_search :: "char option \<Rightarrow> string \<Rightarrow> string \<Rightarrow> bool" where
  "wb_search prev kw [] = (kw = [] \<and> boundary prev None)"
| "wb_search prev kw (y # ys) =
     ((boundary prev (Some y) \<and> prefix kw (y # ys)) \<or> wb_search (Some y) kw ys)"

definition frontend_terms :: "string list" where
  "frontend_terms = [''frontend'', ''front-end'', ''ui'', ''react'', ''angular'', ''vue'',
                     ''css'', ''html'', ''browser'']"

definition backend_terms :: "string list" where
  "backend_terms = [''api'', ''backend'', ''back-end'', ''server'', ''endpoint'', ''microservice'',
                    ''python'', ''node'', ''flask'', ''django'', ''fastapi'', ''express'', ''spring'']"

definition data_terms :: "string list" where
  "data_terms = [''database'', ''data'', ''query'', ''sql'', ''schema'', ''table'', ''index'',
                 ''postgresql'', ''mysql'', ''mongodb'', ''redis'', ''cache'', ''store'']"

definition devops_terms :: "string list" where
  "devops_terms = [''deploy'', ''pipeline'', ''ci'', ''cd'', ''docker'', ''kubernetes'', ''container'',
                   ''infrastructure'', ''cloud'', ''aws'', ''azure'', ''gcp'', ''server'', ''host'',
                   ''terraform'', ''helm'', ''jenkins'', ''github actions'']"

definition tech_terms :: "string list" where
  "tech_terms = [''develop'', ''built'', ''implemented'', ''created'', ''designed'', ''engineered'',
                 ''architected'', ''leveraged'', ''utilized'', ''configured'', ''integrated'']"

definition infra_kws :: "string list" where
  "infra_kws = [''aws'', ''azure'', ''gcp'', ''ec2'', ''s3'', ''lambda'', ''kubernetes'', ''k8s'',
                ''terraform'', ''helm'', ''nginx'', ''ansible'', ''fargate'', ''ecs'', ''eks'']"

definition cicd_kws :: "string list" where
  "cicd_kws = [''ci/cd'', ''github actions'', ''jenkins'', ''gitlab ci'', ''circleci'']"

definition db_kws :: "string list" where
  "db_kws = [''postgresql'', ''mysql'', ''mongodb'', ''redis'', ''elasticsearch'', ''sqlite'',
             ''oracle'', ''cassandra'', ''dynamodb'', ''influxdb'', ''mariadb'', ''couchdb'']"

definition frontend_kws :: "string list" where
  "frontend_kws = [''react'', ''angular'', ''vue'', ''svelte'', ''next.js'', ''nuxt.js'',
                   ''tailwind'', ''bootstrap'', ''css'', ''html'', ''typescript'']"

definition backend_kws :: "string list" where
  "backend_kws = [''fastapi'', ''django'', ''flask'', ''spring'', ''express'', ''nestjs'', ''gin'',
                  ''graphql'', ''grpc'', ''rest'']"

text \<open>The dictionary \<open>lang_kws\<close>, in insertion order.\<close>

definition lang_kws :: "(string \<times> string list) list" where
  "lang_kws = [(''python'', [''python'', ''flask'', ''django'', ''fastapi'']),
               (''javascript'', [''javascript'', ''node'', ''react'', ''express'', ''js'']),
               (''typescript'', [''typescript'', ''react'', ''angular'', ''nestjs'', ''ts'']),
               (''java'', [''java'', ''spring'', ''maven'', ''gradle'']),
               (''go'', [''golang'', ''go '', ''gin'', ''fiber''])]"

text \<open>The loop over \<open>lang_kws.items()\<close>: the first language equal to the keyword
  decides; \<open>None\<close> when the loop ends without returning.\<close>

fun lang_gate :: "(string \<times> string list) list \<Rightarrow> string \<Rightarrow> string \<Rightarrow> bool option" where
  "lang_gate [] kw_lower bullet_lower = None"
| "lang_gate ((lang, lang_triggers) # rest) kw_lower bullet_lower =
     (if kw_lower = lang then Some (any_in lang_triggers bullet_lower)
      else lang_gate rest kw_lower bullet_lower)"

definition is_contextually_relevant :: "string \<Rightarrow> string \<Rightarrow> bool" where
  "is_contextually_relevant keyword bullet =
     (let kw_lower = lower keyword;
          bullet_lower = lower bullet
      in if str_in kw_lower bullet_lower then False
         else
           let bullet_is_frontend = any_in frontend_terms bullet_lower;
               bullet_is_backend = any_in backend_terms bullet_lower;
               bullet_is_data = any_in data_terms bullet_lower;
               bullet_is_devops = any_in devops_terms bullet_lower;
               bullet_is_tech = any_in tech_terms bullet_lower
           in if kw_lower \<in> set infra_kws then bullet_is_devops
              else if kw_lower \<in> set cicd_kws
                then bullet_is_devops \<or> str_in ''pipeline'' bullet_lower
                     \<or> str_in ''automat'' bullet_lower
              else if kw_lower \<in> set db_kws then bullet_is_data
              else if kw_lower \<in> set frontend_kws
                then bullet_is_frontend
                     \<or> (bullet_is_tech \<and> \<not> bullet_is_data \<and> \<not> bullet_is_devops)
              else if kw_lower \<in> set backend_kws
                then bullet_is_backend
                     \<or> (bullet_is_tech \<and> \<not> bullet_is_data \<and> \<not> bullet_is_devops)
              else (case lang_gate lang_kws kw_lower bullet_lower of
                      Some b \<Rightarrow> b
                    | None \<Rightarrow> bullet_is_tech \<and> length keyword > 3))"

definition build_verbs :: "string list" where
  "build_verbs = [''developed'', ''built'', ''implemented'', ''created'',
                  ''designed'', ''engineered'', ''architected'']"

definition improve_verbs :: "string list" where
  "improve_verbs = [''optimized'', ''improved'', ''enhanced'', ''streamlined'']"

definition deploy_verbs :: "string list" where
  "deploy_verbs = [''deployed'', ''configured'', ''containerized'', ''migrated'']"

definition cloud_platforms :: "string list" where
  "cloud_platforms = [''aws'', ''azure'', ''gcp'', ''eks'', ''gke'']"

text \<open>The three insertion patterns, tried in order after both guards have passed.
  \<open>bullet[:-1]\<close> is \<open>butlast bullet\<close>.  A first pattern whose inner test fails falls
  through to the second one, as in the source.\<close>

definition insert_deploy :: "string \<Rightarrow> string \<Rightarrow> string" where
  "insert_deploy bullet keyword =
     (if any_in deploy_verbs (lower bullet) then
        (let prep = (if lower keyword \<in> set cloud_platforms then ''on'' else ''using'')
         in if endswith_char (rstrip bullet) CHR ''.''
            then butlast bullet @ '' '' @ prep @ '' '' @ keyword @ ''.''
            else bullet @ '' '' @ prep @ '' '' @ keyword)
      else bullet)"

definition insert_improve :: "string \<Rightarrow> string \<Rightarrow> string" where
  "insert_improve bullet keyword =
     (if any_in improve_verbs (lower bullet) then
        (if endswith_char (rstrip bullet) CHR ''.''
         then butlast bullet @ '' with '' @ keyword @ ''.''
         else bullet @ '' with '' @ keyword)
      else insert_deploy bullet keyword)"

definition insert_build :: "string \<Rightarrow> string \<Rightarrow> string" where
  "insert_build bullet keyword =
     (if any_in build_verbs (lower bullet) \<and> \<not> wb_search None (lower keyword) (lower bullet) then
        (if endswith_char (rstrip bullet) CHR ''.''
         then butlast bullet @ '', leveraging '' @ keyword @ ''.''
         else bullet @ '', leveraging '' @ keyword)
      else insert_improve bullet keyword)"

definition insert_keyword_naturally :: "string \<Rightarrow> string \<Rightarrow> string" where
  "insert_keyword_naturally bullet keyword =
     (if str_in (lower keyword) (lower bullet) then bullet
      else if \<not> is_contextually_relevant keyword bullet then bullet
      else insert_build bullet keyword)"

section \<open>The skills taxonomy (skills\_db.py)\<close>

text \<open>The dictionaries \<open>SKILLS_DB\<close> and \<open>STRONG_VERBS\<close> as association lists in
  insertion order, which is the order Python iterates them in.\<close>

definition SKILLS_DB :: "(string \<times> string list) list" where
  "SKILLS_DB = [
     (''programming_languages'',
      [''python'', ''javascript'', ''typescript'', ''java'', ''c++'', ''c#'', ''c'', ''go'',
       ''golang'', ''rust'', ''swift'', ''kotlin'', ''ruby'', ''php'', ''scala'', ''r'',
       ''matlab'', ''perl'', ''shell'', ''bash'', ''powershell'', ''lua'', ''dart'',
       ''elixir'', ''haskell'', ''clojure'', ''groovy'', ''objective-c'', ''vba'', ''cobol'',
       ''fortran'', ''assembly'', ''solidity'']),
     (''web_frontend'',
      [''react'', ''react.js'', ''reactjs'', ''angular'', ''angularjs'', ''vue'', ''vue.js'',
       ''vuejs'', ''next.js'', ''nextjs'', ''nuxt.js'', ''svelte'', ''ember.js'',
       ''backbone.js'', ''jquery'', ''html'', ''html5'', ''css'', ''css3'', ''sass'', ''scss'',
       ''less'', ''tailwind'', ''tailwindcss'', ''bootstrap'', ''material-ui'', ''mui'',
       ''chakra ui'', ''ant design'', ''styled-components'', ''webpack'', ''vite'', ''babel'',
       ''parcel'', ''rollup'', ''redux'', ''zustand'', ''mobx'', ''react query'',
       ''graphql client'', ''apollo client'', ''axios'', ''fetch api'', ''typescript'',
       ''eslint'', ''prettier'', ''jest'', ''cypress'', ''playwright'', ''storybook'']),
     (''web_backend'',
      [''node.js'', ''nodejs'', ''express'', ''express.js'', ''fastapi'', ''flask'',
       ''django'', ''spring'', ''spring boot'', ''laravel'', ''rails'', ''ruby on rails'',
       ''asp.net'', ''.net core'', ''nestjs'', ''nest.js'', ''koa'', ''hapi'', ''fastify'',
       ''gin'', ''fiber'', ''echo'', ''actix'', ''rocket'', ''phoenix'', ''elixir phoenix'',
       ''graphql'', ''rest api'', ''restful api'', ''grpc'', ''websocket'', ''oauth'', ''jwt'',
       ''swagger'', ''openapi'']),
     (''databases'',
      [''sql'', ''mysql'', ''postgresql'', ''postgres'', ''sqlite'', ''oracle'',
       ''sql server'', ''mssql'', ''mongodb'', ''mongoose'', ''redis'', ''elasticsearch'',
       ''cassandra'', ''dynamodb'', ''firebase'', ''firestore'', ''couchdb'', ''neo4j'',
       ''influxdb'', ''timescaledb'', ''mariadb'', ''cockroachdb'', ''supabase'',
       ''planetscale'', ''prisma'', ''sequelize'', ''typeorm'', ''sqlalchemy'', ''hibernate'',
       ''knex'']),
     (''cloud_devops'',
      [''aws'', ''amazon web services'', ''azure'', ''microsoft azure'', ''gcp'',
       ''google cloud'', ''google cloud platform'', ''docker'', ''kubernetes'', ''k8s'',
       ''terraform'', ''ansible'', ''puppet'', ''chef'', ''jenkins'', ''ci/cd'',
       ''github actions'', ''gitlab ci'', ''circleci'', ''travis ci'', ''helm'', ''istio'',
       ''prometheus'', ''grafana'', ''elk stack'', ''elasticsearch'', ''logstash'', ''kibana'',
       ''nginx'', ''apache'', ''linux'', ''unix'', ''bash scripting'', ''devops'', ''sre'',
       ''site reliability'', ''ec2'', ''s3'', ''lambda'', ''cloudfront'', ''rds'', ''vpc'',
       ''iam'', ''route53'', ''azure devops'', ''azure functions'', ''gke'', ''aks'', ''eks'',
       ''fargate'', ''serverless'', ''microservices'', ''service mesh'', ''load balancing'',
       ''auto scaling'', ''cdn'', ''cloudwatch'', ''datadog'', ''new relic'', ''splunk'']),
     (''data_science_ml'',
      [''machine learning'', ''ml'', ''deep learning'', ''neural networks'', ''nlp'',
       ''natural language processing'', ''computer vision'', ''tensorflow'', ''pytorch'',
       ''keras'', ''scikit-learn'', ''sklearn'', ''pandas'', ''numpy'', ''scipy'',
       ''matplotlib'', ''seaborn'', ''plotly'', ''jupyter'', ''data analysis'',
       ''data science'', ''statistics'', ''regression'', ''classification'', ''clustering'',
       ''random forest'', ''xgboost'', ''gradient boosting'', ''svm'',
       ''support vector machine'', ''cnn'', ''rnn'', ''lstm'', ''transformer'', ''bert'',
       ''gpt'', ''hugging face'', ''mlflow'', ''kubeflow'', ''airflow'', ''spark'',
       ''pyspark'', ''hadoop'', ''hive'', ''data pipeline'', ''feature engineering'',
       ''model deployment'', ''a/b testing'', ''hypothesis testing'', ''sql analytics'',
       ''power bi'', ''tableau'', ''looker'', ''data studio'', ''dbt'']),
     (''mobile'',
      [''ios'', ''android'', ''react native'', ''flutter'', ''swift'', ''kotlin'', ''xcode'',
       ''android studio'', ''mobile development'', ''app development'', ''pwa'', ''ionic'',
       ''xamarin'', ''cordova'', ''phonegap'', ''expo'', ''dart'', ''push notifications'',
       ''firebase'', ''app store'', ''play store'']),
     (''cybersecurity'',
      [''cybersecurity'', ''security'', ''penetration testing'', ''pen testing'',
       ''ethical hacking'', ''vulnerability assessment'', ''siem'', ''soc'', ''firewall'',
       ''ips'', ''ids'', ''encryption'', ''ssl/tls'', ''pki'', ''identity management'',
       ''iam'', ''sso'', ''oauth'', ''zero trust'', ''owasp'', ''compliance'', ''gdpr'',
       ''hipaa'', ''sox'', ''iso 27001'', ''nist'', ''threat modeling'', ''incident response'',
       ''forensics'', ''burp suite'', ''metasploit'', ''nmap'', ''wireshark'', ''kali linux'']),
     (''project_management'',
      [''agile'', ''scrum'', ''kanban'', ''jira'', ''confluence'', ''trello'', ''asana'',
       ''project management'', ''product management'', ''product owner'', ''scrum master'',
       ''sprint planning'', ''roadmap'', ''stakeholder management'', ''cross-functional'',
       ''waterfall'', ''pmp'', ''prince2'', ''risk management'', ''budget management'',
       ''resource planning'', ''pert'', ''gantt chart'', ''microsoft project'', ''monday.com'',
       ''basecamp'', ''notion'', ''linear'']),
     (''soft_skills'',
      [''leadership'', ''communication'', ''collaboration'', ''teamwork'', ''problem-solving'',
       ''critical thinking'', ''analytical'', ''creative'', ''innovative'', ''adaptable'',
       ''attention to detail'', ''time management'', ''mentoring'', ''coaching'',
       ''presentation'', ''public speaking'', ''negotiation'', ''conflict resolution'',
       ''decision making'', ''strategic thinking'', ''customer-focused'', ''results-driven'',
       ''self-motivated'', ''proactive'', ''organized'', ''detail-oriented'', ''fast learner'',
       ''cross-functional collaboration'', ''stakeholder communication'', ''client management'']),
     (''finance_business'',
      [''financial analysis'', ''financial modeling'', ''excel'', ''vba'', ''bloomberg'',
       ''sql'', ''tableau'', ''powerbi'', ''accounting'', ''gaap'', ''ifrs'', ''budgeting'',
       ''forecasting'', ''variance analysis'', ''kpi'', ''roi'', ''p&l'', ''balance sheet'',
       ''income statement'', ''cash flow'', ''valuation'', ''dcf'', ''merger'',
       ''acquisition'', ''investment banking'', ''private equity'', ''hedge fund'',
       ''risk management'', ''compliance'', ''audit'', ''tax'', ''erp'', ''sap'',
       ''oracle financials'', ''quickbooks'']),
     (''design'',
      [''figma'', ''sketch'', ''adobe xd'', ''photoshop'', ''illustrator'', ''indesign'',
       ''after effects'', ''premiere pro'', ''invision'', ''zeplin'', ''framer'',
       ''ui design'', ''ux design'', ''user research'', ''wireframing'', ''prototyping'',
       ''design systems'', ''accessibility'', ''usability testing'', ''a/b testing'',
       ''visual design'', ''typography'', ''color theory'', ''branding'', ''motion design'']),
     (''marketing'',
      [''seo'', ''sem'', ''google ads'', ''facebook ads'', ''meta ads'',
       ''social media marketing'', ''content marketing'', ''email marketing'', ''hubspot'',
       ''salesforce'', ''crm'', ''google analytics'', ''ga4'', ''marketing automation'',
       ''lead generation'', ''conversion optimization'', ''cro'', ''copywriting'',
       ''brand strategy'', ''market research'', ''competitive analysis'', ''go-to-market'',
       ''demand generation''])]"

definition STRONG_VERBS :: "(string \<times> string list) list" where
  "STRONG_VERBS = [
     (''achievement'', [''Achieved'', ''Delivered'', ''Exceeded'', ''Surpassed'', ''Accomplished'', ''Attained'']),
     (''leadership'', [''Led'', ''Directed'', ''Managed'', ''Oversaw'', ''Supervised'', ''Mentored'', ''Guided'']),
     (''development'', [''Developed'', ''Built'', ''Engineered'', ''Architected'', ''Designed'',
       ''Implemented'', ''Deployed'']),
     (''improvement'', [''Optimized'', ''Enhanced'', ''Streamlined'', ''Improved'', ''Accelerated'',
       ''Boosted'', ''Elevated'']),
     (''creation'', [''Created'', ''Established'', ''Launched'', ''Pioneered'', ''Initiated'', ''Founded'',
       ''Introduced'']),
     (''analysis'', [''Analyzed'', ''Evaluated'', ''Assessed'', ''Investigated'', ''Researched'',
       ''Identified'', ''Diagnosed'']),
     (''collaboration'', [''Collaborated'', ''Partnered'', ''Coordinated'', ''Facilitated'', ''Liaised'',
       ''Aligned'']),
     (''growth'', [''Grew'', ''Scaled'', ''Expanded'', ''Increased'', ''Generated'', ''Drove'',
       ''Amplified'']),
     (''reduction'', [''Reduced'', ''Decreased'', ''Minimized'', ''Cut'', ''Eliminated'', ''Saved'',
       ''Lowered'']),
     (''automation'', [''Automated'', ''Integrated'', ''Migrated'', ''Modernized'', ''Digitized'',
       ''Transformed''])]"

definition WEAK_VERBS :: "string list" where
  "WEAK_VERBS = [''did'', ''made'', ''helped'', ''worked'', ''was'', ''had'', ''got'', ''put'', ''used'',
     ''wrote'', ''ran'', ''kept'', ''gave'', ''took'', ''tried'', ''went'', ''came'', ''saw'',
     ''knew'', ''thought'', ''felt'', ''found'', ''told'', ''asked'']"

section \<open>Resume and job-description records\<close>

text \<open>
  The dictionaries of the pipeline are read with \<open>d.get(key, default)\<close> only, so a
  record field holds the value read: a missing list is \<open>[]\<close>, a missing string is
  \<open>''''\<close>, a missing dictionary is the empty map.  The empty profile \<open>{}\<close> is the
  record of all defaults.
\<close>

record experience_entry =
  company :: string
  role :: string
  dates :: string
  location :: string
  bullets :: "string list"
  raw :: string

record resume_data =
  name :: string
  contact :: "string \<rightharpoonup> string"
  summary :: string
  skills :: "string list"
  experience :: "experience_entry list"
  experience_raw :: string
  education :: string
  projects :: string
  certifications :: string
  raw_sections :: "string \<rightharpoonup> string"
  full_text :: string
  years_experience :: int

record jd_profile =
  job_title :: string
  domain :: string
  experience_level :: string
  technical_skills :: "string list"
  soft_skills :: "string list"
  keywords_list :: "string list"
  action_verbs :: "string list"
  skills_by_category :: "(string \<times> string list) list"
  sections :: "(string \<times> string) list"
  raw_text :: string

text \<open>The field \<open>keywords_list\<close> is the key \<open>keywords\<close>, a name that Isabelle reserves.\<close>

text \<open>The empty profile \<open>{}\<close>.\<close>

definition empty_profile :: jd_profile where
  "empty_profile = \<lparr>job_title = [], domain = [], experience_level = [], technical_skills = [],
     soft_skills = [], keywords_list = [], action_verbs = [], skills_by_category = [],
     sections = [], raw_text = []\<rparr>"

section \<open>ATS scorer (optimizer.py)\<close>

text \<open>One entry of the \<open>breakdown\<close> dictionary.  The keys \<open>matched\<close> and
  \<open>missing\<close> are absent from some entries.\<close>

record breakdown_entry =
  entry_score :: int
  entry_max :: int
  entry_matched :: "string list option"
  entry_missing :: "string list option"

record ats_report =
  total :: int
  breakdown :: "string \<rightharpoonup> breakdown_entry"
  grade :: string

text \<open>
  \<open>int(len(matched) / len(jd_list) * cmax)\<close>.  The source computes the quotient in
  binary floating point; it is modelled by the exact rational.  (The two agree after
  truncation: where the exact product is an integer \<open>k\<close> the quotient is \<open>k / cmax\<close> and
  the float product is \<open>k\<close> again for each \<open>k\<close> up to 40, and elsewhere the exact product
  is at least \<open>1 / len(jd_list)\<close> away from an integer, far more than the rounding
  error.)
\<close>

definition ratio_score :: "nat \<Rightarrow> nat \<Rightarrow> int \<Rightarrow> int" where
  "ratio_score matched_len jd_len cmax =
     \<lfloor>(rat_of_nat matched_len / rat_of_nat jd_len) * rat_of_int cmax\<rfloor>"

text \<open>\<open>[s for s in xs if s in resume_text]\<close> and its complement.\<close>

definition matched_in :: "string \<Rightarrow> string list \<Rightarrow> string list" where
  "matched_in resume_text xs = filter (\<lambda>s. str_in s resume_text) xs"

definition missing_in :: "string \<Rightarrow> string list \<Rightarrow> string list" where
  "missing_in resume_text xs = filter (\<lambda>s. \<not> str_in s resume_text) xs"

text \<open>The four blocks of \<open>calculate_ats_score\<close>, each taking and returning the
  running \<open>(score, breakdown)\<close>.\<close>

definition score_technical ::
  "string \<Rightarrow> string list \<Rightarrow> int \<times> (string \<rightharpoonup> breakdown_entry) \<Rightarrow> int \<times> (string \<rightharpoonup> breakdown_entry)" where
  "score_technical resume_text jd_tech_skills acc =
     (case acc of (score, bd) \<Rightarrow>
        if jd_tech_skills \<noteq> [] then
          (let matched_tech = matched_in resume_text jd_tech_skills;
               tech_score = ratio_score (length matched_tech) (length jd_tech_skills) 40
           in (score + tech_score,
               bd(''technical_skills'' \<mapsto>
                    \<lparr>entry_score = tech_score, entry_max = 40,
                     entry_matched = Some matched_tech,
                     entry_missing = Some (missing_in resume_text jd_tech_skills)\<rparr>)))
        else (score, bd))"

definition score_keywords ::
  "string \<Rightarrow> string list \<Rightarrow> int \<times> (string \<rightharpoonup> breakdown_entry) \<Rightarrow> int \<times> (string \<rightharpoonup> breakdown_entry)" where
  "score_keywords resume_text jd_keywords acc =
     (case acc of (score, bd) \<Rightarrow>
        if jd_keywords \<noteq> [] then
          (let matched_kw = matched_in resume_text jd_keywords;
               kw_score = ratio_score (length matched_kw) (length jd_keywords) 30
           in (score + kw_score,
               bd(''keywords'' \<mapsto>
                    \<lparr>entry_score = kw_score, entry_max = 30,
                     entry_matched = Some (take 10 matched_kw),
                     entry_missing = Some (take 10 (missing_in resume_text jd_keywords))\<rparr>)))
        else (score, bd))"

definition score_soft ::
  "string \<Rightarrow> string list \<Rightarrow> int \<times> (string \<rightharpoonup> breakdown_entry) \<Rightarrow> int \<times> (string \<rightharpoonup> breakdown_entry)" where
  "score_soft resume_text jd_soft_skills acc =
     (case acc of (score, bd) \<Rightarrow>
        if jd_soft_skills \<noteq> [] then
          (let matched_soft = matched_in resume_text jd_soft_skills;
               soft_score = ratio_score (length matched_soft) (length jd_soft_skills) 15
           in (score + soft_score,
               bd(''soft_skills'' \<mapsto>
                    \<lparr>entry_score = soft_score, entry_max = 15,
                     entry_matched = Some matched_soft,
                     entry_missing = None\<rparr>)))
        else (score, bd))"

text \<open>The format score: three points for each of the four section names that is a key
  of \<open>raw_sections\<close>, at most 12, and three more when \<open>contact["email"]\<close> is present
  and not empty.\<close>

definition format_score :: "resume_data \<Rightarrow> int" where
  "format_score resume_data =
     (let has_sections =
            int (length (filter (\<lambda>s. raw_sections resume_data s \<noteq> None)
                           [''experience'', ''education'', ''skills'', ''summary'']));
          sections_score = min (has_sections * 3) 12;
          email_present = (case contact resume_data ''email'' of
                             None \<Rightarrow> False | Some e \<Rightarrow> e \<noteq> [])
      in sections_score + (if email_present then 3 else 0))"

definition score_format ::
  "resume_data \<Rightarrow> int \<times> (string \<rightharpoonup> breakdown_entry) \<Rightarrow> int \<times> (string \<rightharpoonup> breakdown_entry)" where
  "score_format resume_data acc =
     (case acc of (score, bd) \<Rightarrow>
        (score + format_score resume_data,
         bd(''format'' \<mapsto>
              \<lparr>entry_score = format_score resume_data, entry_max = 15,
               entry_matched = None, entry_missing = None\<rparr>)))"

text \<open>The grade is computed from \<open>score\<close> after the floor of 15 and before the cap of
  100, as in the source.\<close>

definition grade_of :: "int \<Rightarrow> string" where
  "grade_of score =
     (if score \<ge> 85 then ''A'' else if score \<ge> 70 then ''B''
      else if score \<ge> 55 then ''C'' else ''D'')"

definition calculate_ats_score :: "resume_data \<Rightarrow> jd_profile \<Rightarrow> ats_report" where
  "calculate_ats_score resume_data jd_analysis =
     (let resume_text = lower (full_text resume_data);
          jd_tech_skills = map lower (technical_skills jd_analysis);
          jd_soft_skills = map lower (soft_skills jd_analysis);
          jd_keywords = map lower (keywords_list jd_analysis)
      in case score_format resume_data
                (score_soft resume_text jd_soft_skills
                  (score_keywords resume_text jd_keywords
                    (score_technical resume_text jd_tech_skills (0, Map.empty))))
         of (score0, bd) \<Rightarrow>
           (let score = max score0 15
            in \<lparr>total = min score 100, breakdown = bd, grade = grade_of score\<rparr>))"

text \<open>The score after the four blocks, before the floor and the cap.\<close>

definition raw_score :: "resume_data \<Rightarrow> jd_profile \<Rightarrow> int" where
  "raw_score r j = fst (score_format r
                (score_soft (lower (full_text r)) (map lower (soft_skills j))
                  (score_keywords (lower (full_text r)) (map lower (keywords_list j))
                    (score_technical (lower (full_text r)) (map lower (technical_skills j)) (0, Map.empty)))))"

text \<open>The per-category score in the words of the specification: nothing for an empty
  job-description list, otherwise the floor of matched count over list length times the
  category maximum, where an item is matched when its lower-cased form occurs in the
  lower-cased full text.\<close>

definition spec_category_score :: "int \<Rightarrow> string \<Rightarrow> string list \<Rightarrow> int" where
  "spec_category_score cmax text jd_list =
     (if jd_list = [] then 0
      else (int (length (filter (\<lambda>s. str_in (lower s) (lower text)) jd_list)) * cmax)
             div int (length jd_list))"

section \<open>Skills section (optimizer.py)\<close>

text \<open>\<open>skill.lower() in [s.lower() for s in domain_skills]\<close>.\<close>

definition in_domain :: "string \<Rightarrow> string list \<Rightarrow> bool" where
  "in_domain skill domain_skills = (lower skill \<in> set (map lower domain_skills))"

text \<open>The set \<open>existing_domains\<close>: every category that lists one of the resume's
  skills.\<close>

definition existing_domains :: "(string \<times> string list) list \<Rightarrow> string list \<Rightarrow> string set" where
  "existing_domains db resume_skills =
     set (concat (map (\<lambda>skill. map fst (filter (\<lambda>(d, domain_skills). in_domain skill domain_skills) db))
                      resume_skills))"

text \<open>\<open>skill_domain\<close>: the first category, in dictionary order, that lists the skill.\<close>

definition skill_domain :: "(string \<times> string list) list \<Rightarrow> string \<Rightarrow> string option" where
  "skill_domain db jd_skill =
     map_option fst (find (\<lambda>(d, domain_skills). in_domain jd_skill domain_skills) db)"

text \<open>The test of one job-description skill in the second loop: not skipped as
  already present, and \<open>skill_domain and skill_domain in existing_domains\<close> (a string
  is true when it is not empty).\<close>

definition addable :: "(string \<times> string list) list \<Rightarrow> string list \<Rightarrow> string \<Rightarrow> bool" where
  "addable db resume_skills jd_skill =
     (\<not> str_in (lower jd_skill) (join '' '' (map lower resume_skills)) \<and>
      (case skill_domain db jd_skill of
         None \<Rightarrow> False
       | Some d \<Rightarrow> d \<noteq> [] \<and> d \<in> existing_domains db resume_skills))"

text \<open>The last loop: drop every skill whose lower-cased form was seen before.\<close>

fun dedupe :: "string set \<Rightarrow> string list \<Rightarrow> string list" where
  "dedupe seen [] = []"
| "dedupe seen (skill # rest) =
     (if lower skill \<in> seen then dedupe seen rest
      else skill # dedupe (insert (lower skill) seen) rest)"

definition optimize_skills_db ::
  "(string \<times> string list) list \<Rightarrow> string list \<Rightarrow> jd_profile \<Rightarrow> string list" where
  "optimize_skills_db db resume_skills jd_analysis =
     (let jd_tech_skills = technical_skills jd_analysis;
          optimized = resume_skills @ filter (addable db resume_skills) jd_tech_skills
      in dedupe {} optimized)"

definition optimize_skills_section :: "string list \<Rightarrow> jd_profile \<Rightarrow> string list" where
  "optimize_skills_section resume_skills jd_analysis =
     optimize_skills_db SKILLS_DB resume_skills jd_analysis"

section \<open>Regular expressions\<close>

text \<open>
  The patterns of the sources are built from literals, repeated character classes
  (\<open>\d+\<close>, \<open>\s*\<close>, \<open>\w+\<close>, \<open>.+\<close>, \<open>.+?\<close>), optional parts, alternatives, capturing
  groups and \<open>$\<close>.  \<open>rmatch\<close> returns every way a pattern matches at the start of
  the input, as the remaining input and the groups captured, in the order in which
  Python's backtracking matcher tries them: the head of the list is the match that
  \<open>re.match\<close> reports.
\<close>

datatype cclass = Digit | Space | Word | Dot

text \<open>\<open>.\<close> matches every character but the line feed.\<close>

fun in_class :: "cclass \<Rightarrow> char \<Rightarrow> bool" where
  "in_class Digit c = isdigit c"
| "in_class Space c = isspace c"
| "in_class Word c = isword c"
| "in_class Dot c = (c \<noteq> CHR 0x0A)"

datatype regex =
    Lit string
  | Rep cclass nat bool
  | Opt regex
  | Or regex regex
  | Then regex regex
  | Group nat regex
  | Eos

type_synonym mstate = "string \<times> (nat \<times> string) list"

text \<open>\<open>Rep cl n greedy\<close> is the class \<open>cl\<close> repeated \<open>n\<close> times or more; the numbers
  of characters it may take are tried from the longest run down when it is greedy and
  from \<open>n\<close> up when it is lazy.\<close>

definition rep_counts :: "cclass \<Rightarrow> nat \<Rightarrow> bool \<Rightarrow> string \<Rightarrow> nat list" where
  "rep_counts cl n greedy s =
     (let k = length (takeWhile (in_class cl) s)
      in if greedy then rev [n..<Suc k] else [n..<Suc k])"

text \<open>A literal, compared without regard to case under \<open>re.IGNORECASE\<close>.\<close>

definition lit_matches :: "bool \<Rightarrow> string \<Rightarrow> string \<Rightarrow> bool" where
  "lit_matches icase l s =
     (if icase then lower (take (length l) s) = lower l else take (length l) s = l)"

text \<open>\<open>$\<close> matches at the end of the input and before a line feed that ends it.\<close>

primrec rmatch :: "bool \<Rightarrow> regex \<Rightarrow> mstate \<Rightarrow> mstate list" where
  "rmatch icase (Lit l) =
     (\<lambda>st. if lit_matches icase l (fst st) then [(drop (length l) (fst st), snd st)] else [])"
| "rmatch icase (Rep cl n greedy) =
     (\<lambda>st. map (\<lambda>i. (drop i (fst st), snd st)) (rep_counts cl n greedy (fst st)))"
| "rmatch icase (Opt r) = (\<lambda>st. rmatch icase r st @ [st])"
| "rmatch icase (Or r1 r2) = (\<lambda>st. rmatch icase r1 st @ rmatch icase r2 st)"
| "rmatch icase (Then r1 r2) = (\<lambda>st. concat (map (rmatch icase r2) (rmatch icase r1 st)))"
| "rmatch icase (Group g r) =
     (\<lambda>st. map (\<lambda>st'. (fst st', (g, take (length (fst st) - length (fst st')) (fst st)) # snd st'))
               (rmatch icase r st))"
| "rmatch icase Eos = (\<lambda>st. if fst st = [] \<or> fst st = [CHR 0x0A] then [st] else [])"

text \<open>A sequence and a choice of several patterns.\<close>

fun seq :: "regex list \<Rightarrow> regex" where
  "seq [] = Lit []"
| "seq [r] = r"
| "seq (r # rs) = Then r (seq rs)"

fun alt :: "string list \<Rightarrow> regex" where
  "alt [] = Lit []"
| "alt [l] = Lit l"
| "alt (l # ls) = Or (Lit l) (alt ls)"

text \<open>\<open>re.match\<close>: the groups of the first match at the start of the input.
  \<open>re.search\<close>: the first match at the leftmost position that has one.\<close>

definition re_match :: "bool \<Rightarrow> regex \<Rightarrow> string \<Rightarrow> (nat \<times> string) list option" where
  "re_match icase r s = (case rmatch icase r (s, []) of [] \<Rightarrow> None | st # _ \<Rightarrow> Some (snd st))"

fun re_search :: "bool \<Rightarrow> regex \<Rightarrow> string \<Rightarrow> (nat \<times> string) list option" where
  "re_search icase r [] = re_match icase r []"
| "re_search icase r (c # cs) =
     (case re_match icase r (c # cs) of
        Some m \<Rightarrow> Some m
      | None \<Rightarrow> re_search icase r cs)"

text \<open>\<open>m.group(g)\<close>.  In every pattern below each group takes part in each match.\<close>

definition group :: "(nat \<times> string) list \<Rightarrow> nat \<Rightarrow> string" where
  "group m g = (case map_of m g of None \<Rightarrow> [] | Some s \<Rightarrow> s)"

text \<open>\<open>int(s)\<close> for a string of decimal digits.\<close>

definition digit_val :: "char \<Rightarrow> nat" where
  "digit_val c = (case map_of (zip digits [0..<10]) c of None \<Rightarrow> 0 | Some d \<Rightarrow> d)"

definition int_of_digits :: "string \<Rightarrow> nat" where
  "int_of_digits s = foldl (\<lambda>n c. 10 * n + digit_val c) 0 s"

section \<open>Experience level (jd\_analyzer.py)\<close>

datatype ptype = Range | Plus | Min | Atleast

text \<open>The list \<open>year_patterns\<close>.\<close>

definition range_pattern :: regex where
  "range_pattern = seq [Group 1 (Rep Digit 1 True), Opt (Lit ''+''), Rep Space 0 True,
                        Or (Lit ''to'') (Lit ''-''), Rep Space 0 True,
                        Group 2 (Rep Digit 1 True), Rep Space 0 True, Lit ''year'', Opt (Lit ''s'')]"

definition plus_pattern :: regex where
  "plus_pattern = seq [Group 1 (Rep Digit 1 True), Lit ''+'', Rep Space 0 True,
                       Lit ''year'', Opt (Lit ''s'')]"

definition min_pattern :: regex where
  "min_pattern = seq [Lit ''minimum'', Rep Space 1 True, Group 1 (Rep Digit 1 True),
                      Rep Space 1 True, Lit ''year'', Opt (Lit ''s'')]"

definition atleast_pattern :: regex where
  "atleast_pattern = seq [Lit ''at'', Rep Space 1 True, Lit ''least'', Rep Space 1 True,
                          Group 1 (Rep Digit 1 True), Rep Space 1 True, Lit ''year'', Opt (Lit ''s'')]"

definition year_patterns :: "(regex \<times> ptype) list" where
  "year_patterns = [(range_pattern, Range), (plus_pattern, Plus),
                    (min_pattern, Min), (atleast_pattern, Atleast)]"

definition level_of_years :: "nat \<Rightarrow> string" where
  "level_of_years years =
     (if years \<le> 2 then ''junior'' else if years \<le> 5 then ''mid-level''
      else if years \<le> 8 then ''senior'' else ''staff/principal'')"

text \<open>The first loop of \<open>extract_experience_level\<close>: the first pattern of the list
  that is found in the text gives the number of years (the upper end for a range);
  \<open>None\<close> when no pattern is found.\<close>

fun years_of :: "(regex \<times> ptype) list \<Rightarrow> string \<Rightarrow> nat option" where
  "years_of [] text_lower = None"
| "years_of ((pattern, pt) # rest) text_lower =
     (case re_search False pattern text_lower of
        Some m \<Rightarrow> Some (if pt = Range then int_of_digits (group m 2) else int_of_digits (group m 1))
      | None \<Rightarrow> years_of rest text_lower)"

text \<open>The dictionary \<open>EXPERIENCE_LEVELS\<close> and the second loop: the first level, in
  dictionary order, one of whose keywords occurs in the text.\<close>

definition EXPERIENCE_LEVELS :: "(string \<times> string list) list" where
  "EXPERIENCE_LEVELS =
     [(''entry'', [''entry level'', ''entry-level'', ''junior'', ''0-1 year'', ''0-2 year'',
                   ''fresh graduate'', ''recent graduate'', ''new grad'', ''trainee'', ''intern'']),
      (''mid'', [''mid level'', ''mid-level'', ''2-4 year'', ''2-5 year'', ''3-5 year'',
                 ''associate'', ''intermediate'']),
      (''senior'', [''senior'', ''sr.'', ''lead'', ''5+ year'', ''5-7 year'', ''7+ year'',
                    ''principal'', ''staff'', ''expert'', ''advanced'']),
      (''executive'', [''director'', ''vp'', ''vice president'', ''cto'', ''ceo'', ''head of'',
                       ''chief'', ''executive'', ''c-level'', ''manager''])]"

definition level_map :: "(string \<times> string) list" where
  "level_map = [(''entry'', ''junior''), (''mid'', ''mid-level''), (''senior'', ''senior''),
                (''executive'', ''executive/director'')]"

fun keyword_level :: "(string \<times> string list) list \<Rightarrow> string \<Rightarrow> string" where
  "keyword_level [] text_lower = ''mid-level''"
| "keyword_level ((level, kws) # rest) text_lower =
     (if any_in kws text_lower
      then (case map_of level_map level of None \<Rightarrow> ''mid-level'' | Some l \<Rightarrow> l)
      else keyword_level rest text_lower)"

definition extract_experience_level :: "string \<Rightarrow> string" where
  "extract_experience_level text =
     (let text_lower = lower text
      in case years_of year_patterns text_lower of
           Some years \<Rightarrow> level_of_years years
         | None \<Rightarrow> keyword_level EXPERIENCE_LEVELS text_lower)"

section \<open>Phrase rewriter (optimizer.py)\<close>

text \<open>
  \<open>random.choice\<close> reads a source of random numbers, which is passed in and out as a
  state: the list of the numbers still to be drawn (zero once the list is used up).
  A theorem for every such list holds for every outcome of the random choices.
\<close>

type_synonym rng = "nat list"

definition random_choice :: "rng \<Rightarrow> 'a list \<Rightarrow> 'a \<times> rng" where
  "random_choice rng xs =
     (case rng of [] \<Rightarrow> (xs ! 0, []) | r # rs \<Rightarrow> (xs ! (r mod length xs), rs))"

text \<open>\<open>s.split()\<close>: the maximal runs of characters that are not white space.  The
  first argument is the word being read, reversed.\<close>

fun split_acc :: "string \<Rightarrow> string \<Rightarrow> string list" where
  "split_acc cur [] = (if cur = [] then [] else [rev cur])"
| "split_acc cur (c # cs) =
     (if isspace c then (if cur = [] then split_acc [] cs else rev cur # split_acc [] cs)
      else split_acc (c # cur) cs)"

definition split :: "string \<Rightarrow> string list" where
  "split s = split_acc [] s"

definition ING_TO_PAST :: "(string \<times> string) list" where
  "ING_TO_PAST =
    [(''building'', ''Built''), (''developing'', ''Developed''), (''designing'', ''Designed''),
     (''implementing'', ''Implemented''), (''creating'', ''Created''), (''leading'', ''Led''),
     (''managing'', ''Managed''), (''delivering'', ''Delivered''),
     (''architecting'', ''Architected''), (''optimizing'', ''Optimized''),
     (''maintaining'', ''Maintained''), (''deploying'', ''Deployed''),
     (''analyzing'', ''Analyzed''), (''improving'', ''Improved''),
     (''establishing'', ''Established''), (''driving'', ''Drove''),
     (''collaborating'', ''Collaborated''), (''coordinating'', ''Coordinated''),
     (''mentoring'', ''Mentored''), (''reviewing'', ''Reviewed''),
     (''monitoring'', ''Monitored''), (''automating'', ''Automated''),
     (''integrating'', ''Integrated''), (''migrating'', ''Migrated''),
     (''launching'', ''Launched''), (''scaling'', ''Scaled''), (''supporting'', ''Supported''),
     (''writing'', ''Wrote''), (''testing'', ''Tested''), (''debugging'', ''Debugged''),
     (''configuring'', ''Configured''), (''setting'', ''Set up''),
     (''working'', ''Worked on''), (''ensuring'', ''Ensured''), (''overseeing'', ''Oversaw''),
     (''handling'', ''Handled'')]"

text \<open>\<open>ING_TO_PAST.get(g.lower(), dflt)\<close>.\<close>

definition ing_to_past :: "string \<Rightarrow> string \<Rightarrow> string" where
  "ing_to_past g dflt =
     (case map_of ING_TO_PAST (lower g) of None \<Rightarrow> dflt | Some past \<Rightarrow> past)"

text \<open>The parts the patterns of \<open>SMART_TRANSFORMS\<close> share: \<open>\s+\<close>, and the groups
  \<open>(.+)\<close>, \<open>(.+?)\<close> and \<open>(.*)\<close>.  The leading \<open>^\<close> of each pattern is implied by
  \<open>re.match\<close>.\<close>

definition sp :: regex where
  "sp = Rep Space 1 True"

definition some_text :: "nat \<Rightarrow> regex" where
  "some_text g = Group g (Rep Dot 1 True)"

definition some_text_lazy :: "nat \<Rightarrow> regex" where
  "some_text_lazy g = Group g (Rep Dot 1 False)"

definition any_text :: "nat \<Rightarrow> regex" where
  "any_text g = Group g (Rep Dot 0 True)"

text \<open>The list \<open>SMART_TRANSFORMS\<close>: each pattern with its replacer, a function of the
  groups of the match.\<close>

definition SMART_TRANSFORMS :: "(regex \<times> ((nat \<times> string) list \<Rightarrow> string)) list" where
  "SMART_TRANSFORMS =
    [(seq [Lit ''was'', sp, Lit ''responsible'', sp, Lit ''for'', sp,
           Group 1 (Then (Rep Word 1 True) (Lit ''ing'')), sp, some_text 2],
      \<lambda>m. ing_to_past (group m 1) ''Managed'' @ '' '' @ group m 2),
     (seq [Lit ''was'', sp, Lit ''responsible'', sp, Lit ''for'', sp, some_text 1],
      \<lambda>m. ''Managed '' @ group m 1),
     (seq [Lit ''responsible'', sp, Lit ''for'', sp,
           Group 1 (alt [''building'', ''developing'', ''creating'', ''designing'',
                         ''implementing'', ''maintaining'', ''managing'', ''leading'']),
           sp, some_text 2],
      \<lambda>m. ing_to_past (group m 1) ''Developed'' @ '' '' @ group m 2),
     (seq [Lit ''responsible'', sp, Lit ''for'', sp, some_text 1],
      \<lambda>m. ''Managed '' @ group m 1),
     (seq [Lit ''worked'', sp, Lit ''on'', sp,
           Group 1 (alt [''developing'', ''building'', ''creating'', ''designing'',
                         ''implementing'']),
           sp, some_text 2],
      \<lambda>m. ing_to_past (group m 1) ''Developed'' @ '' '' @ group m 2),
     (seq [Lit ''worked'', sp, Lit ''on'', sp, some_text_lazy 1, sp,
           Group 2 (alt [''development'', ''implementation'', ''testing'']), any_text 3, Eos],
      \<lambda>m. ''Developed '' @ group m 1 @ group m 3),
     (seq [Lit ''worked'', sp, Lit ''on'', sp, some_text 1],
      \<lambda>m. ''Developed '' @ group m 1),
     (seq [Lit ''was'', sp, Lit ''involved'', sp, Lit ''in'', sp, some_text 1],
      \<lambda>m. ''Contributed to '' @ group m 1),
     (seq [Lit ''was'', sp, Lit ''part'', sp, Lit ''of'', sp, some_text 1],
      \<lambda>m. ''Served as integral member of '' @ group m 1),
     (seq [Lit ''was'', sp, some_text 1],
      \<lambda>m. ''Operated as '' @ group m 1),
     (seq [Lit ''helped'', sp, Lit ''with'', sp, some_text 1],
      \<lambda>m. ''Enhanced '' @ group m 1),
     (seq [Lit ''helped'', sp, Lit ''to'', sp, some_text 1],
      \<lambda>m. ''Supported '' @ group m 1),
     (seq [Lit ''assisted'', sp, Lit ''in'', sp, some_text 1],
      \<lambda>m. ''Collaborated on '' @ group m 1),
     (seq [Lit ''did'', sp, some_text 1],
      \<lambda>m. ''Executed '' @ group m 1),
     (seq [Lit ''participated'', sp, Lit ''in'', sp, some_text 1],
      \<lambda>m. ''Actively contributed to '' @ group m 1),
     (seq [Lit ''made'', sp, some_text_lazy 1, sp,
           Group 2 (alt [''api'', ''apis'', ''service'', ''services'', ''system'', ''systems'',
                         ''pipeline'']),
           any_text 3, Eos],
      \<lambda>m. ''Engineered '' @ group m 1 @ '' '' @ group m 2 @ group m 3),
     (seq [Lit ''made'', sp, some_text 1],
      \<lambda>m. ''Developed '' @ group m 1),
     (seq [Lit ''used'', sp, some_text_lazy 1, sp, Lit ''for'', sp, some_text 2],
      \<lambda>m. ''Leveraged '' @ group m 1 @ '' for '' @ group m 2),
     (seq [Lit ''used'', sp, some_text 1],
      \<lambda>m. ''Utilized '' @ group m 1),
     (seq [Lit ''tried'', sp, Lit ''to'', sp, some_text 1],
      \<lambda>m. ''Successfully '' @ group m 1)]"

text \<open>The loop of \<open>apply_smart_transform\<close>.  A replacer of the list raises no
  exception, so the \<open>except\<close> branch of the source has no counterpart.\<close>

fun apply_transforms ::
  "(regex \<times> ((nat \<times> string) list \<Rightarrow> string)) list \<Rightarrow> string \<Rightarrow> string \<Rightarrow> string option" where
  "apply_transforms [] sentence_stripped sentence_lower = None"
| "apply_transforms ((pattern, replacer) # rest) sentence_stripped sentence_lower =
     (case re_match True pattern sentence_lower of
        None \<Rightarrow> apply_transforms rest sentence_stripped sentence_lower
      | Some m \<Rightarrow>
          (let result = replacer m
           in if result \<noteq> [] then
                (case re_match True pattern sentence_stripped of
                   None \<Rightarrow> Some (capitalize_first result)
                 | Some original_m \<Rightarrow>
                     (let orig_result = replacer original_m
                      in if orig_result \<noteq> [] then Some (capitalize_first orig_result)
                         else Some (capitalize_first result)))
              else apply_transforms rest sentence_stripped sentence_lower))"

definition apply_smart_transform :: "string \<Rightarrow> string option" where
  "apply_smart_transform sentence =
     (let sentence_stripped = strip sentence;
          sentence_lower = lower sentence_stripped
      in apply_transforms SMART_TRANSFORMS sentence_stripped sentence_lower)"

text \<open>\<open>STRONG_VERBS[category]\<close>; every category asked for is a key of the
  dictionary.\<close>

definition strong_verbs :: "string \<Rightarrow> string list" where
  "strong_verbs category = (case map_of STRONG_VERBS category of None \<Rightarrow> [] | Some vs \<Rightarrow> vs)"

text \<open>The chain of \<open>if\<close>/\<open>elif\<close> that picks the pool of verbs from the words of
  the sentence.\<close>

definition verb_category :: "string \<Rightarrow> string" where
  "verb_category context_lower =
     (if any_in [''team'', ''cross'', ''group'', ''stakeholder'', ''collaborate''] context_lower
        then ''collaboration''
      else if any_in [''build'', ''develop'', ''creat'', ''code'', ''implement'', ''deploy'',
                      ''architect'', ''api'', ''service'', ''system''] context_lower
        then ''development''
      else if any_in [''increas'', ''grow'', ''generat'', ''revenue'', ''sale'', ''boost'']
                context_lower
        then ''growth''
      else if any_in [''reduc'', ''decreas'', ''cut'', ''lower'', ''minim'', ''remov'']
                context_lower
        then ''reduction''
      else if any_in [''analyz'', ''resear'', ''assess'', ''evaluat'', ''investigat'',
                      ''diagnos''] context_lower
        then ''analysis''
      else if any_in [''lead'', ''manag'', ''direct'', ''mentor'', ''supervis'', ''overse'']
                context_lower
        then ''leadership''
      else if any_in [''automat'', ''integrat'', ''migrat'', ''digit'', ''transform'']
                context_lower
        then ''automation''
      else if any_in [''optimiz'', ''improv'', ''enhanc'', ''streamlin'', ''acceler'']
                context_lower
        then ''improvement''
      else ''development'')"

text \<open>The test of one weak verb against the first word of the sentence.\<close>

definition is_weak :: "string \<Rightarrow> string \<Rightarrow> bool" where
  "is_weak first_word_lower weak =
     (first_word_lower = weak \<or>
      (length first_word_lower > 4 \<and> prefix (take 4 weak) first_word_lower
       \<and> weak \<notin> set [''the'', ''was'', ''has'']))"

text \<open>The characters of the class \<open>[...\s]\<close> stripped from the front of a bullet: of
  the glyphs listed in the source only the hyphen and the asterisk are ASCII.\<close>

definition is_bullet_char :: "char \<Rightarrow> bool" where
  "is_bullet_char c = (c = CHR ''-'' \<or> c = CHR ''*'' \<or> isspace c)"

text \<open>The fallback of \<open>replace_weak_verb\<close>: the loop over \<open>WEAK_VERBS\<close> ends at the
  first weak verb that fits, with a new sentence or, when nothing follows the first
  word, with \<open>break\<close>.\<close>

definition replace_first_word :: "rng \<Rightarrow> string \<Rightarrow> string \<Rightarrow> string list \<Rightarrow> string \<times> rng" where
  "replace_first_word rng sentence clean words =
     (let first_word_lower = lower (hd words)
      in case find (is_weak first_word_lower) WEAK_VERBS of
           None \<Rightarrow> (sentence, rng)
         | Some weak \<Rightarrow>
             (case random_choice rng (strong_verbs (verb_category (lower clean))) of
                (new_verb, rng') \<Rightarrow>
                  (let rest = join '' '' (tl words)
                   in if rest \<noteq> [] then (new_verb @ '' '' @ rest, rng')
                      else (sentence, rng'))))"

definition replace_weak_verb :: "rng \<Rightarrow> string \<Rightarrow> string \<times> rng" where
  "replace_weak_verb rng sentence0 =
     (let sentence = strip sentence0
      in if sentence = [] then (sentence, rng)
         else
           (let clean = strip (dropWhile is_bullet_char sentence)
            in if clean = [] then (sentence, rng)
               else
                 (case apply_smart_transform clean of
                    Some smart \<Rightarrow>
                      if smart \<noteq> [] then (smart, rng)
                      else (let words = split clean
                            in if words = [] then (sentence, rng)
                               else replace_first_word rng sentence clean words)
                  | None \<Rightarrow>
                      (let words = split clean
                       in if words = [] then (sentence, rng)
                          else replace_first_word rng sentence clean words))))"

section \<open>Experience bullets (optimizer.py)\<close>

text \<open>The loop of \<open>enhance_bullet\<close> over the job description's skills, with the list
  \<open>used_keywords\<close> that the source appends to in place: it ends at the first skill
  whose insertion changes the bullet.\<close>

fun insert_first_skill :: "string \<Rightarrow> string list \<Rightarrow> string list \<Rightarrow> string \<times> string list" where
  "insert_first_skill enhanced [] used_keywords = (enhanced, used_keywords)"
| "insert_first_skill enhanced (skill # rest) used_keywords =
     (if skill \<in> set used_keywords then insert_first_skill enhanced rest used_keywords
      else if str_in (lower skill) (lower enhanced)
        then insert_first_skill enhanced rest used_keywords
      else (let new_enhanced = insert_keyword_naturally enhanced skill
            in if new_enhanced \<noteq> enhanced then (new_enhanced, used_keywords @ [skill])
               else insert_first_skill enhanced rest used_keywords))"

text \<open>\<open>enhance_bullet\<close> returns the bullet together with the list \<open>used_keywords\<close>
  as it has left it and the random source.  The caller always passes the list.\<close>

definition enhance_bullet ::
  "rng \<Rightarrow> string \<Rightarrow> string list \<Rightarrow> string list \<Rightarrow> string list \<Rightarrow> string \<times> string list \<times> rng" where
  "enhance_bullet rng bullet jd_keywords jd_skills used_keywords =
     (if bullet = [] \<or> length bullet < 5 then (bullet, used_keywords, rng)
      else
        (case replace_weak_verb rng bullet of
           (enhanced, rng') \<Rightarrow>
             (case (if length enhanced < 160
                    then insert_first_skill enhanced jd_skills used_keywords
                    else (enhanced, used_keywords)) of
                (enhanced', used_keywords') \<Rightarrow>
                  (capitalize_first enhanced', used_keywords', rng'))))"

text \<open>The inner loop of \<open>optimize_experience\<close> over the bullets of one entry and the
  outer loop over the entries; \<open>used_keywords_global\<close> and the random source run
  through both.\<close>

fun optimize_bullets ::
  "rng \<Rightarrow> string list \<Rightarrow> string list \<Rightarrow> string list \<Rightarrow> string list
     \<Rightarrow> string list \<times> string list \<times> rng" where
  "optimize_bullets rng [] jd_keywords jd_skills used = ([], used, rng)"
| "optimize_bullets rng (bullet # rest) jd_keywords jd_skills used =
     (if strip bullet = [] then optimize_bullets rng rest jd_keywords jd_skills used
      else
        (case enhance_bullet rng bullet jd_keywords jd_skills used of
           (enhanced, used', rng') \<Rightarrow>
             (case optimize_bullets rng' rest jd_keywords jd_skills used' of
                (optimized_bullets, used'', rng'') \<Rightarrow>
                  (enhanced # optimized_bullets, used'', rng''))))"

fun optimize_entries ::
  "rng \<Rightarrow> experience_entry list \<Rightarrow> string list \<Rightarrow> string list \<Rightarrow> string list
     \<Rightarrow> experience_entry list \<times> string list \<times> rng" where
  "optimize_entries rng [] jd_keywords jd_skills used = ([], used, rng)"
| "optimize_entries rng (entry # rest) jd_keywords jd_skills used =
     (case optimize_bullets rng (bullets entry) jd_keywords jd_skills used of
        (optimized_bullets, used', rng') \<Rightarrow>
          (case optimize_entries rng' rest jd_keywords jd_skills used' of
             (optimized_experience, used'', rng'') \<Rightarrow>
               (entry\<lparr>bullets := optimized_bullets\<rparr> # optimized_experience, used'', rng'')))"

text \<open>\<open>optimize_experience_run\<close> is the whole function with the final value of
  \<open>used_keywords_global\<close> and of the random source; \<open>optimize_experience\<close> is what
  the source returns.\<close>

definition optimize_experience_run ::
  "rng \<Rightarrow> experience_entry list \<Rightarrow> jd_profile \<Rightarrow> experience_entry list \<times> string list \<times> rng" where
  "optimize_experience_run rng experience_list jd_analysis =
     (let jd_skills = take 12 (technical_skills jd_analysis);
          jd_keywords = take 10 (keywords_list jd_analysis)
      in optimize_entries rng experience_list jd_keywords jd_skills [])"

definition optimize_experience :: "rng \<Rightarrow> experience_entry list \<Rightarrow> jd_profile \<Rightarrow> experience_entry list" where
  "optimize_experience rng experience_list jd_analysis =
     fst (optimize_experience_run rng experience_list jd_analysis)"

section \<open>Keyword diff (optimizer.py)\<close>

record keyword_diff =
  added :: "string list"
  already_had :: "string list"

text \<open>The loop of \<open>compute_keyword_diff\<close>, returning the lists \<open>added\<close> and
  \<open>already_had\<close> in the order of the keywords.\<close>

fun diff_loop :: "string \<Rightarrow> string \<Rightarrow> string set \<Rightarrow> string list \<Rightarrow> string list \<times> string list" where
  "diff_loop before_lower after_lower seen [] = ([], [])"
| "diff_loop before_lower after_lower seen (kw # rest) =
     (let kw_lower = lower kw
      in if kw_lower \<in> seen \<or> length kw_lower < 3
         then diff_loop before_lower after_lower seen rest
         else
           (case diff_loop before_lower after_lower (insert kw_lower seen) rest of
              (added_rest, had_rest) \<Rightarrow>
                if str_in kw_lower after_lower then
                  (if str_in kw_lower before_lower then (added_rest, kw # had_rest)
                   else (kw # added_rest, had_rest))
                else (added_rest, had_rest)))"

definition compute_keyword_diff :: "string \<Rightarrow> string \<Rightarrow> string list \<Rightarrow> keyword_diff" where
  "compute_keyword_diff before_text after_text jd_keywords =
     (case diff_loop (lower before_text) (lower after_text) {} jd_keywords of
        (added_all, had_all) \<Rightarrow>
          \<lparr>added = take 15 added_all, already_had = take 15 had_all\<rparr>)"

section \<open>JD analyzer (jd\_analyzer.py)\<close>











section \<open>Optimization orchestrator (optimizer.py)\<close>

text \<open>The optimized resume has the keys of a resume and the two keys \<open>jd_title\<close> and
  \<open>domain\<close> (here \<open>jd_domain\<close>).\<close>

record optimized_resume = resume_data +
  jd_title :: string
  jd_domain :: string

record ats_summary =
  ats_before :: int
  ats_after :: int
  ats_grade :: string
  ats_breakdown :: "string \<rightharpoonup> breakdown_entry"

record optimize_result =
  optimized :: optimized_resume
  ats :: ats_summary
  keywords_added :: "string list"
  keywords_existing :: "string list"
  jd_analysis_out :: jd_profile

text \<open>
  \<open>optimize_resume\<close>.  The summary is written by \<open>rewrite_summary\<close>, which fills a
  template drawn by \<open>random.choice\<close>; it is the parameter \<open>summarize\<close>, a function of
  the random source, the resume and the profile that returns the summary and the
  random source.  The optimized resume has no \<open>full_text\<close> and no
  \<open>years_experience\<close>: the fields hold the values a reader with defaults gets.
\<close>

definition optimize_resume ::
  "(rng \<Rightarrow> resume_data \<Rightarrow> jd_profile \<Rightarrow> string \<times> rng) \<Rightarrow> rng \<Rightarrow> resume_data \<Rightarrow> jd_profile
     \<Rightarrow> optimize_result" where
  "optimize_resume summarize rng resume jd_analysis =
     (let original_text = full_text resume;
          pre_ats = calculate_ats_score resume jd_analysis
      in case summarize rng resume jd_analysis of
        (new_summary, rng1) \<Rightarrow>
          (let original_skills = skills resume;
               optimized_skills = optimize_skills_section original_skills jd_analysis;
               original_experience = experience resume;
               optimized_experience =
                 fst (optimize_experience_run rng1 original_experience jd_analysis);
               optimized_data =
                 \<lparr>name = name resume, contact = contact resume, summary = new_summary,
                  skills = optimized_skills, experience = optimized_experience,
                  experience_raw = experience_raw resume, education = education resume,
                  projects = projects resume, certifications = certifications resume,
                  raw_sections = raw_sections resume, full_text = [], years_experience = 3,
                  jd_title = job_title jd_analysis, jd_domain = domain jd_analysis\<rparr>;
               optimized_text_parts =
                 [new_summary, join '' '' optimized_skills]
                   @ concat (map bullets optimized_experience);
               optimized_text = lower (join '' '' optimized_text_parts);
               temp_data = (resume_data.truncate optimized_data)
                             \<lparr>full_text := optimized_text @ '' '' @ original_text,
                              raw_sections := raw_sections resume,
                              contact := contact resume\<rparr>;
               post_ats = calculate_ats_score temp_data jd_analysis;
               kw_diff = compute_keyword_diff original_text optimized_text
                           (technical_skills jd_analysis @ keywords_list jd_analysis)
           in \<lparr>optimized = optimized_data,
               ats = \<lparr>ats_before = total pre_ats, ats_after = total post_ats,
                      ats_grade = grade post_ats, ats_breakdown = breakdown post_ats\<rparr>,
               keywords_added = added kw_diff,
               keywords_existing = already_had kw_diff,
               jd_analysis_out = jd_analysis\<rparr>))"

section \<open>Notions used in the statements\<close>

text \<open>\<open>enhanced_from kws sk b b'\<close>: the bullet \<open>b'\<close> is what \<open>enhance_bullet\<close> returns
  for the bullet \<open>b\<close>, for some value of the random source and of the list of used
  keywords.\<close>

definition enhanced_from :: "string list \<Rightarrow> string list \<Rightarrow> string \<Rightarrow> string \<Rightarrow> bool" where
  "enhanced_from kws sk b b' = (\<exists>rng used. b' = fst (enhance_bullet rng b kws sk used))"

text \<open>\<open>range_starts_before n text\<close>: a match of the range pattern starts at one of
  the first \<open>n\<close> positions of the lower-cased text.\<close>

definition range_starts_before :: "nat \<Rightarrow> string \<Rightarrow> bool" where
  "range_starts_before n text =
     list_ex (\<lambda>i. re_match False range_pattern (drop i (lower text)) \<noteq> None) [0..<n]"

text \<open>The least number of characters a pattern takes.\<close>

primrec min_len :: "regex \<Rightarrow> nat" where
  "min_len (Lit l) = length l"
| "min_len (Rep cl n greedy) = n"
| "min_len (Opt r) = 0"
| "min_len (Or r1 r2) = min (min_len r1) (min_len r2)"
| "min_len (Then r1 r2) = min_len r1 + min_len r2"
| "min_len (Group g r) = min_len r"
| "min_len Eos = 0"


definition example_summarize :: "rng \<Rightarrow> resume_data \<Rightarrow> jd_profile \<Rightarrow> string \<times> rng" where
  "example_summarize rng resume jd_analysis = ([], rng)"

definition example_resume :: resume_data where
  "example_resume =
     \<lparr>name = [], contact = Map.empty, summary = [], skills = [''Python''], experience = [],
      experience_raw = [], education = [], projects = [], certifications = [],
      raw_sections = Map.empty, full_text = [], years_experience = 3\<rparr>"

definition long_bullet :: string where
  "long_bullet = ''Built and deployed the checkout API for the payments platform together with the mobile team, the web team and the data team during the first three quarters of the year, on time.''"

section \<open>Evaluation of case conversion\<close>

text \<open>\<open>lower_char\<close> and \<open>upper_char\<close> on the bits of a character (least
  significant bit first): the letters are the codes 0x41 to 0x5A and 0x61 to 0x7A, and
  the two cases differ in the bit 0x20.  These equations are the ones used to evaluate
  the examples.\<close>

lemma lower_char_bits [code]:
  "lower_char (Char b0 b1 b2 b3 b4 b5 b6 b7) =
     (if \<not> b7 \<and> b6 \<and> \<not> b5 \<and> (b0 \<or> b1 \<or> b2 \<or> b3 \<or> b4) \<and> \<not> (b4 \<and> b3 \<and> (b2 \<or> (b1 \<and> b0)))
      then Char b0 b1 b2 b3 b4 True b6 b7 else Char b0 b1 b2 b3 b4 b5 b6 b7)"
  by (cases b0; cases b1; cases b2; cases b3; cases b4; cases b5; cases b6; cases b7)
     (simp_all add: lower_char_def ascii_upper_def ascii_lower_def)

lemma upper_char_bits [code]:
  "upper_char (Char b0 b1 b2 b3 b4 b5 b6 b7) =
     (if \<not> b7 \<and> b6 \<and> b5 \<and> (b0 \<or> b1 \<or> b2 \<or> b3 \<or> b4) \<and> \<not> (b4 \<and> b3 \<and> (b2 \<or> (b1 \<and> b0)))
      then Char b0 b1 b2 b3 b4 False b6 b7 else Char b0 b1 b2 b3 b4 b5 b6 b7)"
  by (cases b0; cases b1; cases b2; cases b3; cases b4; cases b5; cases b6; cases b7)
     (simp_all add: upper_char_def ascii_upper_def ascii_lower_def)

section \<open>Properties of the insertion engine\<close>

lemma not_relevant_infra:
  assumes "lower keyword \<in> set infra_kws" and "\<not> any_in devops_terms (lower bullet)"
  shows "\<not> is_contextually_relevant keyword bullet"
  using assms by (simp add: is_contextually_relevant_def Let_def)

text \<open>
  Claim C8.  When the lower-cased bullet contains none of the devops trigger terms, an
  infrastructure or cloud keyword (one whose lower-cased form is in \<open>infra_kws\<close>, such
  as Kubernetes) is never inserted: \<open>insert_keyword_naturally\<close> returns the bullet
  unchanged.
\<close>

theorem infra_keyword_needs_devops_bullet:
  assumes "lower keyword \<in> set infra_kws"
    and "\<not> any_in devops_terms (lower bullet)"
  shows "insert_keyword_naturally bullet keyword = bullet"
  using not_relevant_infra [OF assms] by (simp add: insert_keyword_naturally_def)

text \<open>
  Claim C8, at the bullet of the specification's scenario.
\<close>

theorem infra_keyword_needs_devops_bullet_witness:
  "lower ''Kubernetes'' \<in> set infra_kws
   \<and> \<not> any_in devops_terms (lower ''Wrote unit tests for the checkout API'')
   \<and> insert_keyword_naturally ''Wrote unit tests for the checkout API'' ''Kubernetes''
       = ''Wrote unit tests for the checkout API''"
proof -
  have k: "lower ''Kubernetes'' \<in> set infra_kws"
    by code_simp
  have b: "\<not> any_in devops_terms (lower ''Wrote unit tests for the checkout API'')"
    by code_simp
  from k b infra_keyword_needs_devops_bullet [OF k b] show ?thesis
    by (intro conjI)
qed

text \<open>
  Claim C9.  A bullet that ends with a period followed by a blank passes the test
  \<open>bullet.rstrip().endswith('.')\<close>, but \<open>bullet[:-1]\<close> then removes the blank and
  not the period: the clause is appended after the period, which is left in the middle
  of the result.
\<close>

theorem period_left_in_middle_after_trailing_blank:
  "insert_keyword_naturally ''Built the API. '' ''FastAPI''
     = ''Built the API., leveraging FastAPI.''"
  by code_simp

text \<open>For a bullet whose last character is the period, an insertion puts the clause
  before the period.\<close>

lemma period_kept_last:
  assumes "bullet \<noteq> []" and "last bullet = CHR ''.''"
  shows "insert_keyword_naturally bullet keyword = bullet
     \<or> (\<exists>clause \<in> {'', leveraging '', '' with '', '' on '', '' using ''}.
          insert_keyword_naturally bullet keyword = butlast bullet @ clause @ keyword @ ''.'')"
proof -
  have "\<not> isspace (last bullet)" using assms(2) by (simp add: isspace_def)
  then have "rstrip bullet = bullet" using assms(1)
    by (cases bullet rule: rev_cases) (simp_all add: rstrip_def)
  then have "endswith_char (rstrip bullet) CHR ''.''" using assms by (simp add: endswith_char_def)
  then show ?thesis
    by (simp add: insert_keyword_naturally_def insert_build_def insert_improve_def insert_deploy_def Let_def)
qed

lemma period_kept_last_example:
  "insert_keyword_naturally ''Built the API.'' ''FastAPI'' = ''Built the API, leveraging FastAPI.''"
  by code_simp

text \<open>The same happens inside \<open>enhance_bullet\<close> for a bullet with a line break:
  the rewrite keeps the blank before the line break.\<close>

lemma period_left_in_middle_in_enhance_bullet:
  "fst (enhance_bullet [] (''Made the payments API. '' @ [CHR 0x0A] @ ''Deployed it'') []
          [''fastapi''] [])
     = ''Developed the payments API., leveraging fastapi.''"
  by code_simp

section \<open>Properties of the ATS scorer\<close>

lemma ratio_score_div: "ratio_score m n c = (int m * c) div int n"
proof -
  have "(rat_of_nat m / rat_of_nat n) * rat_of_int c = rat_of_int (int m * c) / rat_of_int (int n)"
    by simp
  then show ?thesis
    unfolding ratio_score_def by (simp only: floor_divide_of_int_eq)
qed

lemma ratio_score_bounds:
  assumes "m \<le> n" and "0 \<le> c"
  shows "0 \<le> ratio_score m n c \<and> ratio_score m n c \<le> c"
proof (cases "n = 0")
  case True
  then show ?thesis using assms by (simp add: ratio_score_div)
next
  case False
  have "int m * c \<le> int n * c" using assms by (simp add: mult_right_mono)
  then have "(int m * c) div int n \<le> (int n * c) div int n" by (rule zdiv_mono1) (use False in simp)
  moreover have "(int n * c) div int n = c" using False by simp
  moreover have "0 \<le> (int m * c) div int n" using assms False by (simp add: pos_imp_zdiv_nonneg_iff)
  ultimately show ?thesis by (simp add: ratio_score_div)
qed

lemma length_matched_in: "length (matched_in t xs) \<le> length xs"
  by (simp add: matched_in_def)

lemma format_score_bounds: "0 \<le> format_score r \<and> format_score r \<le> 15"
  by (simp add: format_score_def Let_def min_def split: option.splits)

lemma fst_score_technical:
  "fst (score_technical t xs (s, bd)) = s + (if xs = [] then 0 else ratio_score (length (matched_in t xs)) (length xs) 40)"
  by (simp add: score_technical_def Let_def)

lemma fst_score_keywords:
  "fst (score_keywords t xs (s, bd)) = s + (if xs = [] then 0 else ratio_score (length (matched_in t xs)) (length xs) 30)"
  by (simp add: score_keywords_def Let_def)

lemma fst_score_soft:
  "fst (score_soft t xs (s, bd)) = s + (if xs = [] then 0 else ratio_score (length (matched_in t xs)) (length xs) 15)"
  by (simp add: score_soft_def Let_def)

lemma fst_score_format:
  "fst (score_format r (s, bd)) = s + format_score r"
  by (simp add: score_format_def)

lemma raw_score_eq:
  "raw_score r j =
     (if technical_skills j = [] then 0 else ratio_score (length (matched_in (lower (full_text r)) (map lower (technical_skills j)))) (length (technical_skills j)) 40)
   + (if keywords_list j = [] then 0 else ratio_score (length (matched_in (lower (full_text r)) (map lower (keywords_list j)))) (length (keywords_list j)) 30)
   + (if soft_skills j = [] then 0 else ratio_score (length (matched_in (lower (full_text r)) (map lower (soft_skills j)))) (length (soft_skills j)) 15)
   + format_score r"
  unfolding raw_score_def
  by (simp add: score_technical_def score_keywords_def score_soft_def score_format_def Let_def)

lemma raw_score_bounds: "0 \<le> raw_score r j \<and> raw_score r j \<le> 100"
proof -
  have a: "\<And>t xs c. 0 \<le> c \<Longrightarrow> 0 \<le> ratio_score (length (matched_in t xs)) (length xs) c \<and> ratio_score (length (matched_in t xs)) (length xs) c \<le> c"
    by (rule ratio_score_bounds) (simp_all add: length_matched_in)
  show ?thesis
    using a[of 40 "lower (full_text r)" "map lower (technical_skills j)"]
      a[of 30 "lower (full_text r)" "map lower (keywords_list j)"]
      a[of 15 "lower (full_text r)" "map lower (soft_skills j)"]
      format_score_bounds[of r]
    by (simp add: raw_score_eq)
qed

lemma total_eq: "total (calculate_ats_score r j) = min (max (raw_score r j) 15) 100"
  by (simp add: calculate_ats_score_def raw_score_def Let_def split: prod.splits)

lemma grade_eq: "grade (calculate_ats_score r j) = grade_of (max (raw_score r j) 15)"
  by (simp add: calculate_ats_score_def raw_score_def Let_def split: prod.splits)

text \<open>
  Claim C1.  For every resume and every job-description profile the total lies between
  15 and 100, and the grade is A from 85 up, B from 70 to 84, C from 55 to 69 and D
  below 55.
\<close>

theorem ats_score_bounds_and_grade:
  "15 \<le> total (calculate_ats_score r j) \<and> total (calculate_ats_score r j) \<le> 100 \<and>
   grade (calculate_ats_score r j) =
     (if total (calculate_ats_score r j) \<ge> 85 then ''A''
      else if total (calculate_ats_score r j) \<ge> 70 then ''B''
      else if total (calculate_ats_score r j) \<ge> 55 then ''C'' else ''D'')"
proof -
  have "max (raw_score r j) 15 \<le> 100" using raw_score_bounds[of r j] by simp
  then have t: "total (calculate_ats_score r j) = max (raw_score r j) 15"
    by (simp add: total_eq)
  show ?thesis unfolding t grade_eq grade_of_def using raw_score_bounds[of r j] by simp
qed

lemma length_matched_lower:
  "length (matched_in (lower t) (map lower xs)) = length (filter (\<lambda>s. str_in (lower s) (lower t)) xs)"
  by (simp add: matched_in_def filter_map comp_def)

lemma spec_category_score_eq:
  "spec_category_score c t xs =
     (if xs = [] then 0 else ratio_score (length (matched_in (lower t) (map lower xs))) (length xs) c)"
  by (simp add: spec_category_score_def ratio_score_div length_matched_lower)

lemma breakdown_technical:
  "breakdown (calculate_ats_score r j) ''technical_skills'' =
     (if technical_skills j = [] then None
      else Some \<lparr>entry_score = spec_category_score 40 (full_text r) (technical_skills j), entry_max = 40,
                  entry_matched = Some (matched_in (lower (full_text r)) (map lower (technical_skills j))),
                  entry_missing = Some (missing_in (lower (full_text r)) (map lower (technical_skills j)))\<rparr>)"
  by (simp add: calculate_ats_score_def score_technical_def score_keywords_def score_soft_def
      score_format_def Let_def spec_category_score_eq)

lemma breakdown_keywords:
  "breakdown (calculate_ats_score r j) ''keywords'' =
     (if keywords_list j = [] then None
      else Some \<lparr>entry_score = spec_category_score 30 (full_text r) (keywords_list j), entry_max = 30,
                  entry_matched = Some (take 10 (matched_in (lower (full_text r)) (map lower (keywords_list j)))),
                  entry_missing = Some (take 10 (missing_in (lower (full_text r)) (map lower (keywords_list j))))\<rparr>)"
  by (simp add: calculate_ats_score_def score_technical_def score_keywords_def score_soft_def
      score_format_def Let_def spec_category_score_eq)

lemma breakdown_soft:
  "breakdown (calculate_ats_score r j) ''soft_skills'' =
     (if soft_skills j = [] then None
      else Some \<lparr>entry_score = spec_category_score 15 (full_text r) (soft_skills j), entry_max = 15,
                  entry_matched = Some (matched_in (lower (full_text r)) (map lower (soft_skills j))),
                  entry_missing = None\<rparr>)"
  by (simp add: calculate_ats_score_def score_technical_def score_keywords_def score_soft_def
      score_format_def Let_def spec_category_score_eq)

lemma raw_score_spec:
  "raw_score r j = spec_category_score 40 (full_text r) (technical_skills j)
     + spec_category_score 30 (full_text r) (keywords_list j)
     + spec_category_score 15 (full_text r) (soft_skills j) + format_score r"
  by (simp add: raw_score_eq spec_category_score_eq)

text \<open>
  Claim C5.  The total is the sum, floored at 15 and capped at 100, of the format score
  and of the three category scores of the specification (maxima 40, 30 and 15): the
  floor of matched count over list length times the maximum for a non-empty
  job-description list, zero for an empty one.  The breakdown has an entry for a
  category exactly when its list is not empty; the entry holds that score and the fixed
  maximum.
\<close>

theorem ats_category_scores:
  "total (calculate_ats_score r j) =
     min (max (spec_category_score 40 (full_text r) (technical_skills j)
               + spec_category_score 30 (full_text r) (keywords_list j)
               + spec_category_score 15 (full_text r) (soft_skills j)
               + format_score r) 15) 100
   \<and> map_option entry_score (breakdown (calculate_ats_score r j) ''technical_skills'') =
       (if technical_skills j = [] then None
        else Some (spec_category_score 40 (full_text r) (technical_skills j)))
   \<and> map_option entry_score (breakdown (calculate_ats_score r j) ''keywords'') =
       (if keywords_list j = [] then None
        else Some (spec_category_score 30 (full_text r) (keywords_list j)))
   \<and> map_option entry_score (breakdown (calculate_ats_score r j) ''soft_skills'') =
       (if soft_skills j = [] then None
        else Some (spec_category_score 15 (full_text r) (soft_skills j)))
   \<and> map_option entry_max (breakdown (calculate_ats_score r j) ''technical_skills'') =
       (if technical_skills j = [] then None else Some 40)
   \<and> map_option entry_max (breakdown (calculate_ats_score r j) ''keywords'') =
       (if keywords_list j = [] then None else Some 30)
   \<and> map_option entry_max (breakdown (calculate_ats_score r j) ''soft_skills'') =
       (if soft_skills j = [] then None else Some 15)"
  by (simp add: total_eq raw_score_spec breakdown_technical breakdown_keywords breakdown_soft)

section \<open>Properties of the skills section\<close>

lemma set_dedupe: "set (dedupe seen xs) \<subseteq> set xs"
  by (induction xs arbitrary: seen) auto

lemma skill_domain_Some:
  assumes "skill_domain db s = Some d"
  shows "\<exists>ds. (d, ds) \<in> set db \<and> in_domain s ds"
proof -
  from assms obtain p where p: "find (\<lambda>(d, domain_skills). in_domain s domain_skills) db = Some p" and d: "fst p = d"
    by (auto simp: skill_domain_def)
  from p have "p \<in> set db" and "(\<lambda>(d, domain_skills). in_domain s domain_skills) p"
    by (auto simp: find_Some_iff in_set_conv_nth)
  with d show ?thesis by (cases p) auto
qed

lemma existing_domains_iff:
  "d \<in> existing_domains db rs \<longleftrightarrow> (\<exists>r \<in> set rs. \<exists>ds. (d, ds) \<in> set db \<and> in_domain r ds)"
proof -
  have "d \<in> existing_domains db rs \<longleftrightarrow>
        (\<exists>r \<in> set rs. d \<in> fst ` {p \<in> set db. case p of (d, ds) \<Rightarrow> in_domain r ds})"
    by (simp add: existing_domains_def)
  also have "\<dots> \<longleftrightarrow> (\<exists>r \<in> set rs. \<exists>ds. (d, ds) \<in> set db \<and> in_domain r ds)"
  proof (rule bex_cong [OF refl])
    fix r
    show "d \<in> fst ` {p \<in> set db. case p of (d, ds) \<Rightarrow> in_domain r ds} \<longleftrightarrow>
          (\<exists>ds. (d, ds) \<in> set db \<and> in_domain r ds)"
      by force
  qed
  finally show ?thesis .
qed

lemma addable_truthful:
  assumes "distinct (map fst db)" and "addable db rs s"
  shows "\<exists>(d, ds) \<in> set db. in_domain s ds \<and> (\<exists>r \<in> set rs. in_domain r ds)"
proof -
  from assms(2) obtain d where sd: "skill_domain db s = Some d" and ex: "d \<in> existing_domains db rs"
    by (auto simp: addable_def split: option.splits)
  from skill_domain_Some [OF sd] obtain ds where ds: "(d, ds) \<in> set db" "in_domain s ds" by blast
  from ex obtain r ds' where r: "r \<in> set rs" "(d, ds') \<in> set db" "in_domain r ds'"
    by (auto simp: existing_domains_iff)
  from assms(1) ds(1) r(2) have "ds' = ds" by (meson eq_key_imp_eq_value)
  with ds r show ?thesis by blast
qed

lemma optimize_skills_db_truthful:
  assumes "distinct (map fst db)"
    and "s \<in> set (optimize_skills_db db rs j)" and "s \<notin> set rs"
  shows "\<exists>(d, ds) \<in> set db. in_domain s ds \<and> (\<exists>r \<in> set rs. in_domain r ds)"
proof -
  from assms(2) have "s \<in> set (rs @ filter (addable db rs) (technical_skills j))"
    using set_dedupe by (fastforce simp: optimize_skills_db_def Let_def)
  with assms(3) have "addable db rs s" by simp
  with assms(1) show ?thesis by (rule addable_truthful)
qed

lemma distinct_SKILLS_DB: "distinct (map fst SKILLS_DB)"
  by (simp add: SKILLS_DB_def)

lemma optimized_skills_eq:
  "skills (optimized (optimize_resume sm rng r j)) = optimize_skills_section (skills r) j"
  by (simp add: optimize_resume_def Let_def split: prod.splits)

text \<open>
  Claim C2.  Every skill of the optimized resume's skills list that is not among the
  resume's skills is listed (case-insensitively) in a category of \<open>SKILLS_DB\<close> that
  also lists one of the resume's skills.
\<close>

theorem added_skills_truthful:
  "\<forall>s \<in> set (skills (optimized (optimize_resume summarize rng resume jd))) - set (skills resume).
     \<exists>(category, domain_skills) \<in> set SKILLS_DB.
        in_domain s domain_skills \<and> (\<exists>r \<in> set (skills resume). in_domain r domain_skills)"
  using optimize_skills_db_truthful [OF distinct_SKILLS_DB]
  by (auto simp: optimized_skills_eq optimize_skills_section_def)

text \<open>
  Claim C2 at a resume with the one skill Python and a job description asking for
  javascript (same category, added) and django (another category, not added).
\<close>

theorem added_skills_truthful_witness:
  "''javascript'' \<in> set (skills (optimized (optimize_resume example_summarize [] example_resume
        (empty_profile\<lparr>technical_skills := [''javascript'', ''django'']\<rparr>))))
      - set (skills example_resume)
   \<and> (\<exists>(category, domain_skills) \<in> set SKILLS_DB.
         in_domain ''javascript'' domain_skills
         \<and> (\<exists>r \<in> set (skills example_resume). in_domain r domain_skills))"
proof -
  have e: "skills (optimized (optimize_resume example_summarize [] example_resume
             (empty_profile\<lparr>technical_skills := [''javascript'', ''django'']\<rparr>)))
           = [''Python'', ''javascript'']"
    unfolding optimized_skills_eq by code_simp
  have s: "skills example_resume = [''Python'']"
    by (simp add: example_resume_def)
  have m: "''javascript'' \<in> set (skills (optimized (optimize_resume example_summarize [] example_resume
             (empty_profile\<lparr>technical_skills := [''javascript'', ''django'']\<rparr>))))
           - set (skills example_resume)"
    unfolding e s by simp
  from m bspec [OF added_skills_truthful m] show ?thesis
    by (intro conjI)
qed

section \<open>Properties of the experience level\<close>

lemma lower_append: "lower (a @ b) = lower a @ lower b"
  by (simp add: lower_def)

lemma length_lower: "length (lower s) = length s"
  by (simp add: lower_def)

lemma re_search_skip:
  "(\<And>i. i < length p \<Longrightarrow> re_match ic r (drop i (p @ t)) = None) \<Longrightarrow>
     re_search ic r (p @ t) = re_search ic r t"
proof (induction p)
  case Nil
  then show ?case by simp
next
  case (Cons c p)
  have "re_match ic r ((c # p) @ t) = None" using Cons.prems [of 0] by simp
  moreover have "re_search ic r (p @ t) = re_search ic r t"
  proof (rule Cons.IH)
    fix i assume "i < length p"
    then show "re_match ic r (drop i (p @ t)) = None" using Cons.prems [of "Suc i"] by simp
  qed
  ultimately show ?case by simp
qed

lemma range_search_phrase:
  "re_search False range_pattern (''5-7 years of experience required'' @ s)
     = Some [(2, ''7''), (1, ''5'')]"
  by (simp add: re_match_def range_pattern_def rep_counts_def lit_matches_def
      isdigit_def digits_def isspace_def)

lemma lower_phrase: "lower ''5-7 years of experience required'' = ''5-7 years of experience required''"
  by code_simp

lemma int_of_digits_7: "int_of_digits ''7'' = 7"
  by code_simp

lemma phrase_senior:
  assumes "\<not> range_starts_before (length p) (p @ ''5-7 years of experience required'' @ s)"
  shows "extract_experience_level (p @ ''5-7 years of experience required'' @ s) = ''senior''"
proof -
  define ph where "ph = ''5-7 years of experience required''"
  have lp: "lower ph = ph" unfolding ph_def by (rule lower_phrase)
  have low: "lower (p @ ph @ s) = lower p @ ph @ lower s"
    by (simp add: lower_append lp)
  have a: "\<not> range_starts_before (length p) (p @ ph @ s)"
    using assms unfolding ph_def .
  have n: "\<And>i. i < length (lower p) \<Longrightarrow>
      re_match False range_pattern (drop i (lower p @ ph @ lower s)) = None"
  proof -
    fix i assume "i < length (lower p)"
    then have "i \<in> set [0..<length p]" by (simp add: length_lower)
    with a have "\<not> re_match False range_pattern (drop i (lower (p @ ph @ s))) \<noteq> None"
      unfolding range_starts_before_def list_ex_iff by blast
    then show "re_match False range_pattern (drop i (lower p @ ph @ lower s)) = None"
      unfolding low by simp
  qed
  have "re_search False range_pattern (lower p @ ph @ lower s)
          = re_search False range_pattern (ph @ lower s)"
    using n by (rule re_search_skip)
  also have "\<dots> = Some [(2, ''7''), (1, ''5'')]"
    unfolding ph_def by (rule range_search_phrase)
  finally have "re_search False range_pattern (lower (p @ ph @ s)) = Some [(2, ''7''), (1, ''5'')]"
    unfolding low .
  then have "years_of year_patterns (lower (p @ ph @ s)) = Some 7"
    by (simp add: year_patterns_def group_def int_of_digits_7)
  then have "extract_experience_level (p @ ph @ s) = ''senior''"
    by (simp add: extract_experience_level_def level_of_years_def)
  then show ?thesis unfolding ph_def .
qed

lemma years_of_order:
  "years_of year_patterns t =
     (case re_search False range_pattern t of
        Some m \<Rightarrow> Some (int_of_digits (group m 2))
      | None \<Rightarrow>
     (case re_search False plus_pattern t of
        Some m \<Rightarrow> Some (int_of_digits (group m 1))
      | None \<Rightarrow>
     (case re_search False min_pattern t of
        Some m \<Rightarrow> Some (int_of_digits (group m 1))
      | None \<Rightarrow>
     (case re_search False atleast_pattern t of
        Some m \<Rightarrow> Some (int_of_digits (group m 1))
      | None \<Rightarrow> None))))"
  by (simp add: year_patterns_def split: option.splits)

text \<open>
  Claim C7, as amended.  The four year patterns are tried in the order range, plus,
  minimum, at least; the first that is found gives the years (the upper end of a range),
  which the thresholds 2, 5 and 8 map to junior, mid-level, senior and staff/principal.
  A text that contains the phrase "5-7 years of experience required", and in which no
  match of the range pattern starts before the phrase, is senior.
\<close>

theorem experience_level_from_years:
  "years_of year_patterns t =
     (case re_search False range_pattern t of
        Some m \<Rightarrow> Some (int_of_digits (group m 2))
      | None \<Rightarrow>
     (case re_search False plus_pattern t of
        Some m \<Rightarrow> Some (int_of_digits (group m 1))
      | None \<Rightarrow>
     (case re_search False min_pattern t of
        Some m \<Rightarrow> Some (int_of_digits (group m 1))
      | None \<Rightarrow>
     (case re_search False atleast_pattern t of
        Some m \<Rightarrow> Some (int_of_digits (group m 1))
      | None \<Rightarrow> None))))
   \<and> extract_experience_level text =
     (case years_of year_patterns (lower text) of
        Some years \<Rightarrow>
          (if years \<le> 2 then ''junior'' else if years \<le> 5 then ''mid-level''
           else if years \<le> 8 then ''senior'' else ''staff/principal'')
      | None \<Rightarrow> keyword_level EXPERIENCE_LEVELS (lower text))
   \<and> (\<not> range_starts_before (length p) (p @ ''5-7 years of experience required'' @ s) \<longrightarrow>
        extract_experience_level (p @ ''5-7 years of experience required'' @ s) = ''senior'')"
proof (intro conjI impI)
  show "extract_experience_level text =
     (case years_of year_patterns (lower text) of
        Some years \<Rightarrow>
          (if years \<le> 2 then ''junior'' else if years \<le> 5 then ''mid-level''
           else if years \<le> 8 then ''senior'' else ''staff/principal'')
      | None \<Rightarrow> keyword_level EXPERIENCE_LEVELS (lower text))"
    by (simp add: extract_experience_level_def level_of_years_def Let_def split: option.splits)
qed (rule years_of_order, rule phrase_senior)

text \<open>Claim C7, as amended, at a text with words and a number before the phrase and
  words after it.\<close>

theorem experience_level_from_years_witness:
  "\<not> range_starts_before (length ''We need 3 engineers, each with '')
       (''We need 3 engineers, each with '' @ ''5-7 years of experience required''
          @ '' for this role.'')
   \<and> extract_experience_level
       (''We need 3 engineers, each with '' @ ''5-7 years of experience required''
          @ '' for this role.'') = ''senior''"
proof -
  have n: "\<not> range_starts_before (length ''We need 3 engineers, each with '')
       (''We need 3 engineers, each with '' @ ''5-7 years of experience required''
          @ '' for this role.'')"
    by code_simp
  from experience_level_from_years
         [of "[]" "[]" "''We need 3 engineers, each with ''" "'' for this role.''"]
  have "\<not> range_starts_before (length ''We need 3 engineers, each with '')
       (''We need 3 engineers, each with '' @ ''5-7 years of experience required''
          @ '' for this role.'') \<longrightarrow>
        extract_experience_level
       (''We need 3 engineers, each with '' @ ''5-7 years of experience required''
          @ '' for this role.'') = ''senior''"
    by (elim conjE)
  with n show ?thesis by blast
qed

text \<open>
  Claim C7 as stated fails: the search reports the leftmost range of the text, so an
  earlier range decides the level of a text that contains the phrase.
\<close>

theorem earlier_range_wins_counterexample:
  "str_in ''5-7 years of experience required''
      ''Junior track: 1-2 years in support. Senior track: 5-7 years of experience required''
   \<and> extract_experience_level
      ''Junior track: 1-2 years in support. Senior track: 5-7 years of experience required'' = ''junior''"
  by code_simp

section \<open>Properties of the JD analyzer\<close>




section \<open>Properties of the experience bullets and of the keyword diff\<close>












lemma optimize_bullets_corr:
  "list_all2 (enhanced_from kws sk) (filter (\<lambda>b. strip b \<noteq> []) bs)
      (fst (optimize_bullets rng bs kws sk used))"
proof (induction bs arbitrary: rng used)
  case Nil
  then show ?case by simp
next
  case (Cons b bs)
  show ?case
  proof (cases "strip b = []")
    case True
    with Cons show ?thesis by simp
  next
    case False
    obtain e u1 r1 where eb: "enhance_bullet rng b kws sk used = (e, u1, r1)"
      by (cases "enhance_bullet rng b kws sk used") auto
    then have "enhanced_from kws sk b e" unfolding enhanced_from_def by (metis fst_conv)
    moreover obtain o2 u2 r2 where ob: "optimize_bullets r1 bs kws sk u1 = (o2, u2, r2)"
      by (cases "optimize_bullets r1 bs kws sk u1") auto
    ultimately show ?thesis using False eb Cons.IH [of r1 u1]
      by simp
  qed
qed

lemma optimize_entries_corr:
  "list_all2 (\<lambda>e e'. e' = e\<lparr>bullets := bullets e'\<rparr> \<and>
        list_all2 (enhanced_from kws sk) (filter (\<lambda>b. strip b \<noteq> []) (bullets e)) (bullets e'))
     es (fst (optimize_entries rng es kws sk used))"
proof (induction es arbitrary: rng used)
  case Nil
  then show ?case by simp
next
  case (Cons e es)
  obtain o1 u1 r1 where ob: "optimize_bullets rng (bullets e) kws sk used = (o1, u1, r1)"
    by (cases "optimize_bullets rng (bullets e) kws sk used") auto
  with optimize_bullets_corr [of kws sk "bullets e" rng used]
  have "list_all2 (enhanced_from kws sk) (filter (\<lambda>b. strip b \<noteq> []) (bullets e)) o1" by simp
  moreover obtain o2 u2 r2 where oe: "optimize_entries r1 es kws sk u1 = (o2, u2, r2)"
    by (cases "optimize_entries r1 es kws sk u1") auto
  ultimately show ?case using ob Cons.IH [of r1 u1]
    by simp
qed


lemma optimized_experience_eq:
  "experience (optimized (optimize_resume sm rng r j))
     = fst (optimize_experience_run (snd (sm rng r j)) (experience r) j)"
  by (simp add: optimize_resume_def Let_def split: prod.splits)

text \<open>
  Claim C4.  The entries of the optimized experience are the entries of the resume, in
  order, each with its other fields unchanged; the bullets of an entry are the results
  of \<open>enhance_bullet\<close> on its bullets that are not empty after trimming, one for one
  and in order.  So each entry has as many bullets as the input entry has bullets that
  are not blank.
\<close>

theorem bullets_one_to_one:
  "list_all2
     (\<lambda>e e'. e' = e\<lparr>bullets := bullets e'\<rparr> \<and>
        list_all2 (enhanced_from (take 10 (keywords_list jd)) (take 12 (technical_skills jd)))
          (filter (\<lambda>b. strip b \<noteq> []) (bullets e)) (bullets e'))
     (experience resume) (experience (optimized (optimize_resume summarize rng resume jd)))
   \<and> map (\<lambda>e'. length (bullets e')) (experience (optimized (optimize_resume summarize rng resume jd)))
       = map (\<lambda>e. length (filter (\<lambda>b. strip b \<noteq> []) (bullets e))) (experience resume)"
proof -
  let ?out = "experience (optimized (optimize_resume summarize rng resume jd))"
  let ?R = "\<lambda>e e'. e' = e\<lparr>bullets := bullets e'\<rparr> \<and>
        list_all2 (enhanced_from (take 10 (keywords_list jd)) (take 12 (technical_skills jd)))
          (filter (\<lambda>b. strip b \<noteq> []) (bullets e)) (bullets e')"
  have a: "list_all2 ?R (experience resume) ?out"
    unfolding optimized_experience_eq optimize_experience_run_def Let_def
    by (rule optimize_entries_corr)
  have "\<And>xs ys. list_all2 ?R xs ys \<Longrightarrow>
          map (\<lambda>e'. length (bullets e')) ys = map (\<lambda>e. length (filter (\<lambda>b. strip b \<noteq> []) (bullets e))) xs"
  proof -
    fix xs ys assume "list_all2 ?R xs ys"
    then show "map (\<lambda>e'. length (bullets e')) ys = map (\<lambda>e. length (filter (\<lambda>b. strip b \<noteq> []) (bullets e))) xs"
      by (induction rule: list_all2_induct) (auto dest!: list_all2_lengthD)
  qed
  from a this [OF a] show ?thesis by (rule conjI)
qed

section \<open>Properties of the length gate\<close>

lemma lit_matches_length: "lit_matches ic l s \<Longrightarrow> length l \<le> length s"
proof -
  assume "lit_matches ic l s"
  then have "length (take (length l) s) = length l"
    by (auto simp: lit_matches_def split: if_splits dest: arg_cong [where f = length] simp: length_lower)
  then show ?thesis by simp
qed

lemma rep_counts_bounds: "i \<in> set (rep_counts cl n g s) \<Longrightarrow> n \<le> i \<and> i \<le> length s"
proof -
  assume "i \<in> set (rep_counts cl n g s)"
  then have "n \<le> i \<and> i \<le> length (takeWhile (in_class cl) s)"
    by (auto simp: rep_counts_def Let_def split: if_splits)
  moreover have "length (takeWhile (in_class cl) s) \<le> length s" by (rule length_takeWhile_le)
  ultimately show ?thesis by simp
qed

lemma rmatch_min_len:
  "st' \<in> set (rmatch ic r st) \<Longrightarrow> length (fst st') + min_len r \<le> length (fst st)"
proof (induction r arbitrary: st st')
  case (Lit l)
  then show ?case by (auto split: if_splits dest: lit_matches_length)
next
  case (Rep cl n g)
  then show ?case by (auto dest: rep_counts_bounds)
next
  case (Opt r)
  then show ?case by fastforce
next
  case (Or r1 r2)
  then show ?case by fastforce
next
  case (Then r1 r2)
  from Then.prems obtain m where m: "m \<in> set (rmatch ic r1 st)" and s: "st' \<in> set (rmatch ic r2 m)"
    by auto
  from Then.IH(1) [OF m] Then.IH(2) [OF s] show ?case by simp
next
  case (Group g r)
  from Group.prems obtain m where m: "m \<in> set (rmatch ic r st)" and f: "fst st' = fst m"
    by auto
  from Group.IH [OF m] f show ?case by simp
next
  case Eos
  then show ?case by (auto split: if_splits)
qed

lemma re_match_min_len: "length s < min_len r \<Longrightarrow> re_match ic r s = None"
proof -
  assume l: "length s < min_len r"
  have "rmatch ic r (s, []) = []"
  proof (rule ccontr)
    assume "rmatch ic r (s, []) \<noteq> []"
    then obtain st' where "st' \<in> set (rmatch ic r (s, []))" by (cases "rmatch ic r (s, [])") auto
    from rmatch_min_len [OF this] l show False by simp
  qed
  then show ?thesis by (simp add: re_match_def)
qed

lemma apply_transforms_short:
  "list_all (\<lambda>(p, f). length s < min_len p) ts \<Longrightarrow> length s = length s2 \<Longrightarrow>
     apply_transforms ts s s2 = None"
  by (induction ts) (auto simp: re_match_min_len)

lemma smart_min_len: "list_all (\<lambda>(p, f). 5 \<le> min_len p) SMART_TRANSFORMS"
  by (simp add: SMART_TRANSFORMS_def sp_def some_text_def some_text_lazy_def any_text_def)

lemma length_lstrip_le: "length (lstrip s) \<le> length s"
  by (simp add: lstrip_def length_dropWhile_le)

lemma length_rstrip_le: "length (rstrip s) \<le> length s"
proof -
  have "length (dropWhile isspace (rev s)) \<le> length (rev s)" by (rule length_dropWhile_le)
  then show ?thesis by (simp add: rstrip_def)
qed

lemma length_strip_le: "length (strip s) \<le> length s"
  using length_rstrip_le [of "lstrip s"] length_lstrip_le [of s] by (simp add: strip_def)

lemma apply_smart_transform_short:
  assumes "length s < 5"
  shows "apply_smart_transform s = None"
proof -
  have l: "length (strip s) < 5" using assms length_strip_le [of s] by simp
  have "list_all (\<lambda>(p, f). length (strip s) < min_len p) SMART_TRANSFORMS"
    using smart_min_len l by (auto simp: list_all_iff)
  then show ?thesis
    unfolding apply_smart_transform_def Let_def
    by (rule apply_transforms_short) (simp add: length_lower)
qed

lemma length_join_split_acc:
  "length (join '' '' (split_acc cur s)) \<le> length cur + length s"
proof (induction s arbitrary: cur)
  case Nil
  then show ?case by simp
next
  case (Cons c cs)
  show ?case
  proof (cases "isspace c")
    case False
    with Cons [of "c # cur"] show ?thesis by simp
  next
    case True
    show ?thesis
    proof (cases "cur = []")
      case True
      with \<open>isspace c\<close> Cons [of "[]"] show ?thesis by simp
    next
      case False
      have "length (join '' '' (rev cur # split_acc [] cs)) \<le> length cur + 1 + length (join '' '' (split_acc [] cs))"
        by (cases "split_acc [] cs") simp_all
      with \<open>isspace c\<close> False Cons [of "[]"] show ?thesis by simp
    qed
  qed
qed

lemma length_join_tl: "length (join '' '' (tl ws)) \<le> length (join '' '' ws)"
proof (cases ws)
  case Nil
  then show ?thesis by simp
next
  case (Cons w ws')
  then show ?thesis by (cases ws') simp_all
qed

lemma length_join_tl_split: "length (join '' '' (tl (split s))) \<le> length s"
  using length_join_tl [of "split s"] length_join_split_acc [of "[]" s]
  by (simp add: split_def)

lemma strong_verbs_short: "list_all (\<lambda>v. length v \<le> 12) (strong_verbs (verb_category x))"
  by (simp add: verb_category_def strong_verbs_def STRONG_VERBS_def)

lemma strong_verbs_nonempty: "strong_verbs (verb_category x) \<noteq> []"
  by (simp add: verb_category_def strong_verbs_def STRONG_VERBS_def)

lemma random_choice_mem: "xs \<noteq> [] \<Longrightarrow> fst (random_choice rng xs) \<in> set xs"
  by (cases rng) (simp_all add: random_choice_def)

lemma replace_first_word_length:
  "length (fst (replace_first_word rng sentence clean (split clean)))
     \<le> max (length sentence) (13 + length clean)"
proof (cases "find (is_weak (lower (hd (split clean)))) WEAK_VERBS")
  case None
  then show ?thesis by (simp add: replace_first_word_def Let_def)
next
  case (Some weak)
  obtain v r where rc: "random_choice rng (strong_verbs (verb_category (lower clean))) = (v, r)"
    by (cases "random_choice rng (strong_verbs (verb_category (lower clean)))")
  have "v \<in> set (strong_verbs (verb_category (lower clean)))"
    using random_choice_mem [OF strong_verbs_nonempty, of rng "lower clean"] rc by simp
  with strong_verbs_short [of "lower clean"] have "length v \<le> 12"
    by (simp add: list_all_iff)
  with Some rc length_join_tl_split [of clean] show ?thesis
    by (auto simp: replace_first_word_def Let_def max_def)
qed

lemma replace_weak_verb_short:
  assumes "length b < 5"
  shows "length (fst (replace_weak_verb rng b)) < 160"
proof -
  let ?s = "strip b"
  let ?c = "strip (dropWhile is_bullet_char ?s)"
  have s: "length ?s < 5" using assms length_strip_le [of b] by simp
  have "length (dropWhile is_bullet_char ?s) \<le> length ?s" by (rule length_dropWhile_le)
  with s have c: "length ?c < 5" using length_strip_le [of "dropWhile is_bullet_char ?s"] by simp
  have n: "apply_smart_transform ?c = None" using c by (rule apply_smart_transform_short)
  have "length (fst (replace_first_word rng ?s ?c (split ?c))) < 160"
    using replace_first_word_length [of rng ?s ?c] s c by simp
  with s n show ?thesis
    by (simp add: replace_weak_verb_def Let_def)
qed

text \<open>
  Claim C10.  When the rewritten bullet has 160 characters or more, \<open>enhance_bullet\<close>
  returns it with its first character in upper case, and leaves the list of used
  keywords as it was.  When \<open>enhance_bullet\<close> changes the list, that is when it inserts
  a keyword, the rewritten bullet has fewer than 160 characters.
\<close>

theorem insertion_only_below_160:
  "(160 \<le> length (fst (replace_weak_verb rng bullet)) \<longrightarrow>
      enhance_bullet rng bullet jd_keywords jd_skills used
        = (capitalize_first (fst (replace_weak_verb rng bullet)), used,
           snd (replace_weak_verb rng bullet)))
   \<and> (fst (snd (enhance_bullet rng bullet jd_keywords jd_skills used)) \<noteq> used \<longrightarrow>
        length (fst (replace_weak_verb rng bullet)) < 160)"
proof (intro conjI impI)
  assume l: "160 \<le> length (fst (replace_weak_verb rng bullet))"
  then have "\<not> length bullet < 5" using replace_weak_verb_short [of bullet rng] by auto
  with l show "enhance_bullet rng bullet jd_keywords jd_skills used
        = (capitalize_first (fst (replace_weak_verb rng bullet)), used,
           snd (replace_weak_verb rng bullet))"
    by (auto simp: enhance_bullet_def split: prod.splits)
next
  assume "fst (snd (enhance_bullet rng bullet jd_keywords jd_skills used)) \<noteq> used"
  then show "length (fst (replace_weak_verb rng bullet)) < 160"
    by (auto simp: enhance_bullet_def split: prod.splits if_splits)
qed

text \<open>Claim C10 at a bullet of 177 characters, which is returned as it is, and at a
  short bullet that receives a keyword.\<close>

theorem insertion_only_below_160_witness:
  "160 \<le> length (fst (replace_weak_verb [] long_bullet))
   \<and> enhance_bullet [] long_bullet [] [''django''] []
       = (capitalize_first (fst (replace_weak_verb [] long_bullet)), [],
          snd (replace_weak_verb [] long_bullet))
   \<and> fst (snd (enhance_bullet [] ''Built the checkout API.'' [] [''django''] [])) \<noteq> []
   \<and> length (fst (replace_weak_verb [] ''Built the checkout API.'')) < 160"
proof -
  have l: "160 \<le> length (fst (replace_weak_verb [] long_bullet))"
    by code_simp
  have u: "fst (snd (enhance_bullet [] ''Built the checkout API.'' [] [''django''] [])) \<noteq> []"
    by code_simp
  from insertion_only_below_160 [of "[]" long_bullet "[]" "[''django'']" "[]"] l
  have a: "enhance_bullet [] long_bullet [] [''django''] []
       = (capitalize_first (fst (replace_weak_verb [] long_bullet)), [],
          snd (replace_weak_verb [] long_bullet))"
    by blast
  from insertion_only_below_160 [of "[]" "''Built the checkout API.''" "[]" "[''django'']" "[]"] u
  have b: "length (fst (replace_weak_verb [] ''Built the checkout API.'')) < 160"
    by blast
  from l a u b show ?thesis by (intro conjI)
qed

end
